theory Spec2Isabelle
  imports Main
begin

section \<open>Python values and exceptions\<close>

text \<open>
  The values the script handles are what \<^verbatim>\<open>response.json()\<close> yields: \<^verbatim>\<open>None\<close>, booleans,
  unbounded integers, floats, strings, lists and dicts. A finite float is the exact number
  \<open>m * 2 ^ e\<close>; a dict is an association list read through \<open>map_of\<close> (keys are distinct in a
  parsed dict, so the first binding is the binding).
\<close>

datatype pyfloat = Finite int int | Infinity bool | NaN

datatype json =
    JNull
  | JBool bool
  | JInt int
  | JFloat pyfloat
  | JStr string
  | JArr "json list"
  | JObj "(string \<times> json) list"

datatype exn_class =
    AttributeError | TypeError | KeyError | IndexError | ValueError | OverflowError
  | LibraryError string

text \<open>An exception object: its class and the text \<^verbatim>\<open>str(e)\<close> gives.\<close>

datatype exn = Exn exn_class string

fun exn_msg :: "exn \<Rightarrow> string" where
  "exn_msg (Exn c m) = m"

text \<open>What a call does: it returns a value or raises.\<close>

datatype 'a outcome = Returned 'a | Raised exn

definition quoted :: "string \<Rightarrow> string" where
  "quoted s = CHR 0x27 # s @ [CHR 0x27]"

fun type_name :: "json \<Rightarrow> string" where
  "type_name JNull = ''NoneType''"
| "type_name (JBool b) = ''bool''"
| "type_name (JInt i) = ''int''"
| "type_name (JFloat f) = ''float''"
| "type_name (JStr s) = ''str''"
| "type_name (JArr xs) = ''list''"
| "type_name (JObj kvs) = ''dict''"

definition no_attribute :: "json \<Rightarrow> string \<Rightarrow> exn" where
  "no_attribute v a =
     Exn AttributeError (quoted (type_name v) @ '' object has no attribute '' @ quoted a)"

text \<open>Truth value of an object, as \<^verbatim>\<open>if x:\<close> and \<^verbatim>\<open>not x\<close> test it.\<close>

fun truthy :: "json \<Rightarrow> bool" where
  "truthy JNull = False"
| "truthy (JBool b) = b"
| "truthy (JInt i) = (i \<noteq> 0)"
| "truthy (JFloat (Finite m e)) = (m \<noteq> 0)"
| "truthy (JFloat f) = True"
| "truthy (JStr s) = (s \<noteq> [])"
| "truthy (JArr xs) = (xs \<noteq> [])"
| "truthy (JObj kvs) = (kvs \<noteq> [])"

text \<open>\<^verbatim>\<open>x.get(key, default)\<close>: only a dict has the method.\<close>

fun dict_get :: "json \<Rightarrow> string \<Rightarrow> json \<Rightarrow> exn + json" where
  "dict_get (JObj kvs) k d = (case map_of kvs k of None \<Rightarrow> Inr d | Some v \<Rightarrow> Inr v)"
| "dict_get v k d = Inl (no_attribute v ''get'')"

text \<open>\<^verbatim>\<open>x.split('T')[0]\<close>: only a string has the method; the first piece always exists.\<close>

fun split_T_first :: "json \<Rightarrow> exn + string" where
  "split_T_first (JStr s) = Inr (takeWhile (\<lambda>c. c \<noteq> CHR ''T'') s)"
| "split_T_first v = Inl (no_attribute v ''split'')"

text \<open>\<^verbatim>\<open>x[0]\<close> on a truthy object.\<close>

fun index0 :: "json \<Rightarrow> exn + json" where
  "index0 (JArr xs) =
     (case xs of [] \<Rightarrow> Inl (Exn IndexError ''list index out of range'')
      | x # _ \<Rightarrow> Inr x)"
| "index0 (JStr s) =
     (case s of [] \<Rightarrow> Inl (Exn IndexError ''string index out of range'')
      | c # _ \<Rightarrow> Inr (JStr [c]))"
| "index0 (JObj kvs) = Inl (Exn KeyError ''0'')"
| "index0 v = Inl (Exn TypeError (quoted (type_name v) @ '' object is not subscriptable''))"

text \<open>\<^verbatim>\<open>for x in xs\<close>: the items of a list, the characters of a string, the keys of a dict.\<close>

fun py_iter :: "json \<Rightarrow> exn + json list" where
  "py_iter (JArr xs) = Inr xs"
| "py_iter (JStr s) = Inr (map (\<lambda>c. JStr [c]) s)"
| "py_iter (JObj kvs) = Inr (map (\<lambda>kv. JStr (fst kv)) kvs)"
| "py_iter v = Inl (Exn TypeError (quoted (type_name v) @ '' object is not iterable''))"

text \<open>Decimal text of an integer, as an f-string renders it.\<close>

fun str_nat :: "nat \<Rightarrow> string" where
  "str_nat n =
     (if n < 10 then [''0123456789'' ! n]
      else str_nat (n div 10) @ [''0123456789'' ! (n mod 10)])"

declare str_nat.simps [simp del]

definition str_int :: "int \<Rightarrow> string" where
  "str_int i = (if i < 0 then CHR ''-'' # str_nat (nat (- i)) else str_nat (nat i))"

section \<open>The world outside the script\<close>

record response =
  status_code :: int
  json_result :: "exn + json"

text \<open>
  The tuple appended to \<^verbatim>\<open>games\<close> (lines 203-213), and the column values the database
  makes of it.
\<close>

record game_tuple =
  t_game_id :: json
  t_season :: int
  t_week :: json
  t_game_date :: string
  t_home_team :: json
  t_away_team :: json
  t_home_score :: "int option"
  t_away_score :: "int option"
  t_status :: json

record game_values =
  v_game_id :: "string option"
  v_season :: "int option"
  v_week :: "int option"
  v_game_date :: "string option"
  v_home_team :: "string option"
  v_away_team :: "string option"
  v_home_score :: "int option"
  v_away_score :: "int option"
  v_status :: "string option"

text \<open>
  Everything the script reaches but does not contain is a parameter: the environment
  variable, the database server answering a connection attempt, the HTTP endpoint, the
  clock behind \<^verbatim>\<open>CURRENT_TIMESTAMP\<close>, Python's \<^verbatim>\<open>int()\<close> on a string, and the conversion
  of a tuple of Python objects to values of the column types of \<^verbatim>\<open>nfl_games\<close> (by the
  driver and the server; \<open>None\<close> is SQL \<^verbatim>\<open>NULL\<close>). The first argument of the time-dependent
  ones is the number of effects the process has had so far.
\<close>

record world =
  w_env :: "string option"
  w_connect :: "nat \<Rightarrow> string \<Rightarrow> exn option"
  w_http :: "nat \<Rightarrow> string \<Rightarrow> exn + response"
  w_now :: "nat \<Rightarrow> nat"
  w_int_str :: "string \<Rightarrow> exn + int"
  w_adapt :: "game_tuple \<Rightarrow> exn + game_values"

text \<open>\<^verbatim>\<open>int(x)\<close>: a float is truncated towards zero.\<close>

fun py_int :: "world \<Rightarrow> json \<Rightarrow> exn + int" where
  "py_int W (JBool b) = Inr (if b then 1 else 0)"
| "py_int W (JInt i) = Inr i"
| "py_int W (JFloat (Finite m e)) =
     Inr (if 0 \<le> e then m * 2 ^ nat e
          else if 0 \<le> m then m div 2 ^ nat (- e) else - ((- m) div 2 ^ nat (- e)))"
| "py_int W (JFloat (Infinity b)) =
     Inl (Exn OverflowError ''cannot convert float infinity to integer'')"
| "py_int W (JFloat NaN) = Inl (Exn ValueError ''cannot convert float NaN to integer'')"
| "py_int W (JStr s) = w_int_str W s"
| "py_int W v =
     Inl (Exn TypeError
       (''int() argument must be a string, a bytes-like object or a real number, not ''
        @ quoted (type_name v)))"

section \<open>Parsing the scoreboard (populate\_games, lines 174-213)\<close>

text \<open>The four loop variables: home\_team, away\_team, home\_score, away\_score.\<close>

type_synonym sides = "json \<times> json \<times> int option \<times> int option"

text \<open>\<^verbatim>\<open>competitor.get('team', {}).get('abbreviation')\<close>\<close>

definition team_abbreviation :: "json \<Rightarrow> exn + json" where
  "team_abbreviation competitor =
     (case dict_get competitor ''team'' (JObj []) of
        Inl e \<Rightarrow> Inl e
      | Inr team \<Rightarrow> dict_get team ''abbreviation'' JNull)"

text \<open>\<^verbatim>\<open>int(competitor.get('score', 0))\<close>\<close>

definition score :: "world \<Rightarrow> json \<Rightarrow> exn + int" where
  "score W competitor =
     (case dict_get competitor ''score'' (JInt 0) of
        Inl e \<Rightarrow> Inl e
      | Inr v \<Rightarrow> py_int W v)"

text \<open>\<^verbatim>\<open>competitor.get('homeAway') == 'home'\<close>\<close>

definition home_away :: "json \<Rightarrow> exn + bool" where
  "home_away competitor =
     (case dict_get competitor ''homeAway'' JNull of
        Inl e \<Rightarrow> Inl e
      | Inr v \<Rightarrow> Inr (v = JStr ''home''))"

text \<open>The body of the loop over competitors (lines 194-199).\<close>

definition competitor_step :: "world \<Rightarrow> json \<Rightarrow> sides \<Rightarrow> exn + sides" where
  "competitor_step W competitor acc =
     (case acc of (home_team, away_team, home_score, away_score) \<Rightarrow>
      (case home_away competitor of
         Inl e \<Rightarrow> Inl e
       | Inr is_home \<Rightarrow>
          (case team_abbreviation competitor of
             Inl e \<Rightarrow> Inl e
           | Inr ab \<Rightarrow>
              (case score W competitor of
                 Inl e \<Rightarrow> Inl e
               | Inr sc \<Rightarrow>
                  if is_home then Inr (ab, away_team, Some sc, away_score)
                  else Inr (home_team, ab, home_score, Some sc)))))"

fun competitors_loop :: "world \<Rightarrow> json list \<Rightarrow> sides \<Rightarrow> exn + sides" where
  "competitors_loop W [] acc = Inr acc"
| "competitors_loop W (c # cs) acc =
     (case competitor_step W c acc of
        Inl e \<Rightarrow> Inl e
      | Inr acc' \<Rightarrow> competitors_loop W cs acc')"

text \<open>\<^verbatim>\<open>competition.get('status', {}).get('type', {}).get('name', 'scheduled')\<close>\<close>

definition status_name :: "json \<Rightarrow> exn + json" where
  "status_name competition =
     (case dict_get competition ''status'' (JObj []) of
        Inl e \<Rightarrow> Inl e
      | Inr st \<Rightarrow>
         (case dict_get st ''type'' (JObj []) of
            Inl e \<Rightarrow> Inl e
          | Inr ty \<Rightarrow> dict_get ty ''name'' (JStr ''scheduled'')))"

text \<open>\<^verbatim>\<open>if week:\<close> on the parameter: \<^verbatim>\<open>None\<close> and \<open>0\<close> are false.\<close>

fun week_given :: "int option \<Rightarrow> bool" where
  "week_given None = False"
| "week_given (Some w) = (w \<noteq> 0)"

text \<open>\<^verbatim>\<open>week if week else event.get('week', {}).get('number', 1)\<close>\<close>

definition week_value :: "int option \<Rightarrow> json \<Rightarrow> exn + json" where
  "week_value week event =
     (if week_given week then Inr (JInt (the week))
      else (case dict_get event ''week'' (JObj []) of
              Inl e \<Rightarrow> Inl e
            | Inr wk \<Rightarrow> dict_get wk ''number'' (JInt 1)))"

text \<open>
  One pass of the loop over events (lines 178-213): \<open>Inr None\<close> is \<^verbatim>\<open>continue\<close>,
  \<open>Inr (Some g)\<close> the tuple appended.
\<close>

definition parse_event :: "world \<Rightarrow> int \<Rightarrow> int option \<Rightarrow> json \<Rightarrow> exn + game_tuple option" where
  "parse_event W season week event =
     (case dict_get event ''id'' JNull of
        Inl e \<Rightarrow> Inl e
      | Inr game_id \<Rightarrow>
     (case dict_get event ''date'' (JStr '''') of
        Inl e \<Rightarrow> Inl e
      | Inr d \<Rightarrow>
     (case split_T_first d of
        Inl e \<Rightarrow> Inl e
      | Inr game_date \<Rightarrow>
     (case dict_get event ''competitions'' (JArr []) of
        Inl e \<Rightarrow> Inl e
      | Inr competitions \<Rightarrow>
     if \<not> truthy competitions then Inr None
     else
     (case index0 competitions of
        Inl e \<Rightarrow> Inl e
      | Inr competition \<Rightarrow>
     (case dict_get competition ''competitors'' (JArr []) of
        Inl e \<Rightarrow> Inl e
      | Inr competitors \<Rightarrow>
     (case py_iter competitors of
        Inl e \<Rightarrow> Inl e
      | Inr cs \<Rightarrow>
     (case competitors_loop W cs (JNull, JNull, None, None) of
        Inl e \<Rightarrow> Inl e
      | Inr (home_team, away_team, home_score, away_score) \<Rightarrow>
     (case status_name competition of
        Inl e \<Rightarrow> Inl e
      | Inr status \<Rightarrow>
     (case week_value week event of
        Inl e \<Rightarrow> Inl e
      | Inr wk \<Rightarrow>
        Inr (Some \<lparr>t_game_id = game_id, t_season = season, t_week = wk,
                   t_game_date = game_date, t_home_team = home_team,
                   t_away_team = away_team, t_home_score = home_score,
                   t_away_score = away_score, t_status = status\<rparr>)))))))))))"

fun events_loop ::
  "world \<Rightarrow> int \<Rightarrow> int option \<Rightarrow> json list \<Rightarrow> game_tuple list \<Rightarrow> exn + game_tuple list" where
  "events_loop W season week [] games = Inr games"
| "events_loop W season week (event # events) games =
     (case parse_event W season week event of
        Inl e \<Rightarrow> Inl e
      | Inr None \<Rightarrow> events_loop W season week events games
      | Inr (Some g) \<Rightarrow> events_loop W season week events (games @ [g]))"

text \<open>\<^verbatim>\<open>for event in data.get('events', [])\<close> with \<^verbatim>\<open>games = []\<close>.\<close>

definition parse_events :: "world \<Rightarrow> int \<Rightarrow> int option \<Rightarrow> json \<Rightarrow> exn + game_tuple list" where
  "parse_events W season week data =
     (case dict_get data ''events'' (JArr []) of
        Inl e \<Rightarrow> Inl e
      | Inr evs \<Rightarrow>
         (case py_iter evs of
            Inl e \<Rightarrow> Inl e
          | Inr events \<Rightarrow> events_loop W season week events []))"

section \<open>The database\<close>

text \<open>
  A column definition as the DDL writes it: name, type, and the rest of the line. A table
  definition is its columns and its \<^verbatim>\<open>FOREIGN KEY (c) REFERENCES t(rc)\<close> clauses.
\<close>

record column =
  c_name :: string
  c_type :: string
  c_rest :: string

record table_def =
  columns :: "column list"
  foreign_keys :: "(string \<times> string \<times> string) list"

definition col :: "string \<Rightarrow> string \<Rightarrow> string \<Rightarrow> column" where
  "col n t r = \<lparr>c_name = n, c_type = t, c_rest = r\<rparr>"

definition nfl_teams_ddl :: table_def where
  "nfl_teams_ddl = \<lparr>columns =
     [col ''id'' ''SERIAL'' ''PRIMARY KEY'',
      col ''team_name'' ''VARCHAR(100)'' ''NOT NULL'',
      col ''team_abbr'' ''VARCHAR(10)'' ''NOT NULL UNIQUE'',
      col ''conference'' ''VARCHAR(10)'' [],
      col ''division'' ''VARCHAR(20)'' [],
      col ''created_at'' ''TIMESTAMP'' ''DEFAULT CURRENT_TIMESTAMP''],
     foreign_keys = []\<rparr>"

definition nfl_games_ddl :: table_def where
  "nfl_games_ddl = \<lparr>columns =
     [col ''id'' ''SERIAL'' ''PRIMARY KEY'',
      col ''game_id'' ''VARCHAR(50)'' ''UNIQUE'',
      col ''season'' ''INTEGER'' [],
      col ''week'' ''INTEGER'' [],
      col ''game_date'' ''DATE'' [],
      col ''home_team'' ''VARCHAR(10)'' [],
      col ''away_team'' ''VARCHAR(10)'' [],
      col ''home_score'' ''INTEGER'' [],
      col ''away_score'' ''INTEGER'' [],
      col ''status'' ''VARCHAR(20)'' [],
      col ''created_at'' ''TIMESTAMP'' ''DEFAULT CURRENT_TIMESTAMP'',
      col ''updated_at'' ''TIMESTAMP'' ''DEFAULT CURRENT_TIMESTAMP''],
     foreign_keys = []\<rparr>"

definition nfl_players_ddl :: table_def where
  "nfl_players_ddl = \<lparr>columns =
     [col ''id'' ''SERIAL'' ''PRIMARY KEY'',
      col ''player_id'' ''VARCHAR(50)'' ''UNIQUE'',
      col ''player_name'' ''VARCHAR(100)'' ''NOT NULL'',
      col ''team'' ''VARCHAR(10)'' [],
      col ''position'' ''VARCHAR(10)'' [],
      col ''jersey_number'' ''INTEGER'' [],
      col ''created_at'' ''TIMESTAMP'' ''DEFAULT CURRENT_TIMESTAMP'',
      col ''updated_at'' ''TIMESTAMP'' ''DEFAULT CURRENT_TIMESTAMP''],
     foreign_keys = []\<rparr>"

definition nfl_player_stats_ddl :: table_def where
  "nfl_player_stats_ddl = \<lparr>columns =
     [col ''id'' ''SERIAL'' ''PRIMARY KEY'',
      col ''player_id'' ''VARCHAR(50)'' [],
      col ''game_id'' ''VARCHAR(50)'' [],
      col ''season'' ''INTEGER'' [],
      col ''week'' ''INTEGER'' [],
      col ''passing_yards'' ''INTEGER'' ''DEFAULT 0'',
      col ''passing_tds'' ''INTEGER'' ''DEFAULT 0'',
      col ''interceptions'' ''INTEGER'' ''DEFAULT 0'',
      col ''rushing_yards'' ''INTEGER'' ''DEFAULT 0'',
      col ''rushing_tds'' ''INTEGER'' ''DEFAULT 0'',
      col ''receptions'' ''INTEGER'' ''DEFAULT 0'',
      col ''receiving_yards'' ''INTEGER'' ''DEFAULT 0'',
      col ''receiving_tds'' ''INTEGER'' ''DEFAULT 0'',
      col ''created_at'' ''TIMESTAMP'' ''DEFAULT CURRENT_TIMESTAMP''],
     foreign_keys =
     [(''player_id'', ''nfl_players'', ''player_id''),
      (''game_id'', ''nfl_games'', ''game_id'')]\<rparr>"

text \<open>
  Rows of the two tables the script writes, in the shape its DDL gives them. The script
  never reads or writes a row of \<^verbatim>\<open>nfl_players\<close> or \<^verbatim>\<open>nfl_player_stats\<close>, so the state
  holds their definitions only. A timestamp is a number.
\<close>

record team_row =
  tm_id :: nat
  tm_team_name :: string
  tm_team_abbr :: string
  tm_conference :: "string option"
  tm_division :: "string option"
  tm_created_at :: nat

record game_row =
  g_id :: nat
  g_game_id :: "string option"
  g_season :: "int option"
  g_week :: "int option"
  g_game_date :: "string option"
  g_home_team :: "string option"
  g_away_team :: "string option"
  g_home_score :: "int option"
  g_away_score :: "int option"
  g_status :: "string option"
  g_created_at :: nat
  g_updated_at :: nat

text \<open>
  The committed state: the catalogue of table definitions by name, the rows, and the
  next value of the sequence behind each \<^verbatim>\<open>id SERIAL\<close> column.
\<close>

record database =
  catalog :: "(string \<times> table_def) list"
  nfl_teams :: "team_row list"
  nfl_teams_id_seq :: nat
  nfl_games :: "game_row list"
  nfl_games_id_seq :: nat

definition sql_error :: "string \<Rightarrow> string \<Rightarrow> exn" where
  "sql_error c m = Exn (LibraryError (''psycopg2.errors.'' @ c)) m"

subsection \<open>CREATE TABLE IF NOT EXISTS\<close>

definition col_unique :: "column \<Rightarrow> bool" where
  "col_unique c =
     (c_rest c = ''PRIMARY KEY'' \<or> c_rest c = ''UNIQUE'' \<or> c_rest c = ''NOT NULL UNIQUE'')"

text \<open>
  A foreign key needs the referenced table to exist with a unique constraint on the
  referenced column.
\<close>

definition fk_error :: "(string \<times> table_def) list \<Rightarrow> string \<times> string \<times> string \<Rightarrow> exn option" where
  "fk_error cat fk =
     (case fk of (c, rt, rc) \<Rightarrow>
       (case map_of cat rt of
          None \<Rightarrow> Some (sql_error ''UndefinedTable'' (''relation '' @ rt @ '' does not exist''))
        | Some td \<Rightarrow>
            if list_ex (\<lambda>k. c_name k = rc \<and> col_unique k) (columns td) then None
            else Some (sql_error ''InvalidForeignKey''
                    (''there is no unique constraint matching given keys for referenced table ''
                     @ rt))))"

text \<open>A table just created is empty and its sequence starts at 1.\<close>

definition fresh_rows :: "string \<Rightarrow> database \<Rightarrow> database" where
  "fresh_rows name db =
     (if name = ''nfl_teams'' then db\<lparr>nfl_teams := [], nfl_teams_id_seq := 1\<rparr>
      else if name = ''nfl_games'' then db\<lparr>nfl_games := [], nfl_games_id_seq := 1\<rparr>
      else db)"

text \<open>
  One \<^verbatim>\<open>CREATE TABLE IF NOT EXISTS\<close>: a table of that name makes the statement a no-op
  (whatever its definition); otherwise the foreign keys are checked and the table added.
\<close>

definition create_table_if_not_exists ::
  "string \<Rightarrow> table_def \<Rightarrow> database \<Rightarrow> exn + database" where
  "create_table_if_not_exists name td db =
     (case map_of (catalog db) name of
        Some existing \<Rightarrow> Inr db
      | None \<Rightarrow>
         (case List.map_filter (fk_error (catalog db)) (foreign_keys td) of
            e # _ \<Rightarrow> Inl e
          | [] \<Rightarrow> Inr (fresh_rows name (db\<lparr>catalog := catalog db @ [(name, td)]\<rparr>))))"

text \<open>The four statements of create\_tables (lines 30-93), in order.\<close>

definition create_statements :: "database \<Rightarrow> exn + database" where
  "create_statements db =
     (case create_table_if_not_exists ''nfl_teams'' nfl_teams_ddl db of
        Inl e \<Rightarrow> Inl e
      | Inr db1 \<Rightarrow>
     (case create_table_if_not_exists ''nfl_games'' nfl_games_ddl db1 of
        Inl e \<Rightarrow> Inl e
      | Inr db2 \<Rightarrow>
     (case create_table_if_not_exists ''nfl_players'' nfl_players_ddl db2 of
        Inl e \<Rightarrow> Inl e
      | Inr db3 \<Rightarrow>
        create_table_if_not_exists ''nfl_player_stats'' nfl_player_stats_ddl db3)))"

subsection \<open>execute\_values\<close>

text \<open>
  \<^verbatim>\<open>execute_values(cur, sql, argslist)\<close> with the default \<^verbatim>\<open>page_size=100\<close>: one statement
  per page of at most 100 rows, all in the one open transaction. A statement answers with
  the state it leaves and either the exception it raised or its row count (a failed
  statement leaves the rows as they were but not the sequence: values drawn from a
  sequence are never given back).
\<close>

fun paginate :: "'a list \<Rightarrow> 'a list list" where
  "paginate xs = (if xs = [] then [] else take 100 xs # paginate (drop 100 xs))"

declare paginate.simps [simp del]

fun run_pages ::
  "('a list \<Rightarrow> database \<Rightarrow> (exn + nat) \<times> database) \<Rightarrow> 'a list list \<Rightarrow> int \<Rightarrow> database
     \<Rightarrow> (exn + int) \<times> database" where
  "run_pages stmt [] rowcount db = (Inr rowcount, db)"
| "run_pages stmt (page # pages) rowcount db =
     (case stmt page db of
        (Inl e, db') \<Rightarrow> (Inl e, db')
      | (Inr n, db') \<Rightarrow> run_pages stmt pages (int n) db')"

text \<open>The first component of a result is \<^verbatim>\<open>cur.rowcount\<close>, -1 on a cursor that ran nothing.\<close>

definition execute_values ::
  "('a list \<Rightarrow> database \<Rightarrow> (exn + nat) \<times> database) \<Rightarrow> 'a list \<Rightarrow> database
     \<Rightarrow> (exn + int) \<times> database" where
  "execute_values stmt argslist db = run_pages stmt (paginate argslist) (- 1) db"

text \<open>
  A transaction that ends without \<^verbatim>\<open>commit()\<close> leaves the committed state, but for the
  sequences.
\<close>

definition rollback :: "database \<Rightarrow> database \<Rightarrow> database" where
  "rollback committed db =
     committed\<lparr>nfl_teams_id_seq := nfl_teams_id_seq db,
               nfl_games_id_seq := nfl_games_id_seq db\<rparr>"

text \<open>
  The row lists hold rows of the shape the script's DDL gives; a statement on a table that
  is missing, or that exists under the name with another definition, is taken to fail.
\<close>

definition table_error :: "database \<Rightarrow> string \<Rightarrow> table_def \<Rightarrow> exn option" where
  "table_error db name td =
     (case map_of (catalog db) name of
        None \<Rightarrow> Some (sql_error ''UndefinedTable'' (''relation '' @ name @ '' does not exist''))
      | Some existing \<Rightarrow>
          if existing = td then None
          else Some (sql_error ''ProgrammingError''
                  (''relation '' @ name @ '' has another definition'')))"

definition unique_violation :: "string \<Rightarrow> exn" where
  "unique_violation c =
     sql_error ''UniqueViolation'' (''duplicate key value violates unique constraint '' @ c)"

subsection \<open>INSERT INTO nfl\_teams ... ON CONFLICT (team\_abbr) DO NOTHING\<close>

text \<open>
  One proposed row: a value is drawn from the sequence for \<open>id\<close>; a row with the same
  abbreviation makes the database skip it; otherwise it is inserted, unless the primary
  key is taken. The state is the rows, the sequence and the count of rows inserted.
\<close>

definition insert_team ::
  "nat \<Rightarrow> string \<times> string \<times> string \<times> string \<Rightarrow> team_row list \<times> nat \<times> nat
     \<Rightarrow> (exn \<times> nat) + (team_row list \<times> nat \<times> nat)" where
  "insert_team now t st =
     (case st of (rows, seq, n) \<Rightarrow>
      (case t of (team_name, team_abbr, conference, division) \<Rightarrow>
        if team_abbr \<in> set (map tm_team_abbr rows) then Inr (rows, seq + 1, n)
        else if seq \<in> set (map tm_id rows) then Inl (unique_violation ''nfl_teams_pkey'', seq + 1)
        else Inr (rows @ [\<lparr>tm_id = seq, tm_team_name = team_name, tm_team_abbr = team_abbr,
                           tm_conference = Some conference, tm_division = Some division,
                           tm_created_at = now\<rparr>], seq + 1, n + 1)))"

fun insert_team_rows ::
  "nat \<Rightarrow> (string \<times> string \<times> string \<times> string) list \<Rightarrow> team_row list \<times> nat \<times> nat
     \<Rightarrow> (exn \<times> nat) + (team_row list \<times> nat \<times> nat)" where
  "insert_team_rows now [] st = Inr st"
| "insert_team_rows now (t # ts) st =
     (case insert_team now t st of
        Inl e \<Rightarrow> Inl e
      | Inr st' \<Rightarrow> insert_team_rows now ts st')"

definition insert_teams_statement ::
  "nat \<Rightarrow> (string \<times> string \<times> string \<times> string) list \<Rightarrow> database \<Rightarrow> (exn + nat) \<times> database" where
  "insert_teams_statement now page db =
     (case table_error db ''nfl_teams'' nfl_teams_ddl of
        Some e \<Rightarrow> (Inl e, db)
      | None \<Rightarrow>
         (case insert_team_rows now page (nfl_teams db, nfl_teams_id_seq db, 0) of
            Inl (e, seq) \<Rightarrow> (Inl e, db\<lparr>nfl_teams_id_seq := seq\<rparr>)
          | Inr (rows, seq, n) \<Rightarrow> (Inr n, db\<lparr>nfl_teams := rows, nfl_teams_id_seq := seq\<rparr>)))"

subsection \<open>INSERT INTO nfl\_games ... ON CONFLICT (game\_id) DO UPDATE SET ...\<close>

text \<open>The \<^verbatim>\<open>DO UPDATE SET\<close> list (lines 223-226), applied to the row in conflict.\<close>

definition do_update :: "nat \<Rightarrow> game_values \<Rightarrow> game_row \<Rightarrow> game_row" where
  "do_update now excluded r =
     r\<lparr>g_home_score := v_home_score excluded,
       g_away_score := v_away_score excluded,
       g_status := v_status excluded,
       g_updated_at := now\<rparr>"

text \<open>The row an \<^verbatim>\<open>INSERT\<close> without conflict adds: all nine columns of the column list.\<close>

definition new_game_row :: "nat \<Rightarrow> nat \<Rightarrow> game_values \<Rightarrow> game_row" where
  "new_game_row now i v =
     \<lparr>g_id = i, g_game_id = v_game_id v, g_season = v_season v, g_week = v_week v,
      g_game_date = v_game_date v, g_home_team = v_home_team v, g_away_team = v_away_team v,
      g_home_score = v_home_score v, g_away_score = v_away_score v, g_status = v_status v,
      g_created_at = now, g_updated_at = now\<rparr>"

text \<open>
  One proposed row. The state is the rows, the sequence, and the identifiers this
  statement has already inserted or updated: a second row with one of them makes the
  database raise (it will not affect a row twice in one command). \<^verbatim>\<open>NULL\<close> conflicts with
  nothing.
\<close>

definition upsert_game ::
  "nat \<Rightarrow> game_values \<Rightarrow> game_row list \<times> nat \<times> string list
     \<Rightarrow> (exn \<times> nat) + (game_row list \<times> nat \<times> string list)" where
  "upsert_game now v st =
     (case st of (rows, seq, touched) \<Rightarrow>
      (case v_game_id v of
         None \<Rightarrow>
           if seq \<in> set (map g_id rows) then Inl (unique_violation ''nfl_games_pkey'', seq + 1)
           else Inr (rows @ [new_game_row now seq v], seq + 1, touched)
       | Some k \<Rightarrow>
           if k \<in> set touched then
             Inl (sql_error ''CardinalityViolation''
                    ''ON CONFLICT DO UPDATE command cannot affect row a second time'', seq + 1)
           else if Some k \<in> set (map g_game_id rows) then
             Inr (map (\<lambda>r. if g_game_id r = Some k then do_update now v r else r) rows,
                  seq + 1, k # touched)
           else if seq \<in> set (map g_id rows) then
             Inl (unique_violation ''nfl_games_pkey'', seq + 1)
           else Inr (rows @ [new_game_row now seq v], seq + 1, k # touched)))"

fun upsert_game_rows ::
  "nat \<Rightarrow> game_values list \<Rightarrow> game_row list \<times> nat \<times> string list
     \<Rightarrow> (exn \<times> nat) + (game_row list \<times> nat \<times> string list)" where
  "upsert_game_rows now [] st = Inr st"
| "upsert_game_rows now (v # vs) st =
     (case upsert_game now v st of
        Inl e \<Rightarrow> Inl e
      | Inr st' \<Rightarrow> upsert_game_rows now vs st')"

text \<open>The tuples of a page become column values before the server runs anything.\<close>

fun adapt_all :: "world \<Rightarrow> game_tuple list \<Rightarrow> exn + game_values list" where
  "adapt_all W [] = Inr []"
| "adapt_all W (g # gs) =
     (case w_adapt W g of
        Inl e \<Rightarrow> Inl e
      | Inr v \<Rightarrow> (case adapt_all W gs of Inl e \<Rightarrow> Inl e | Inr vs \<Rightarrow> Inr (v # vs)))"

definition upsert_games_statement ::
  "world \<Rightarrow> nat \<Rightarrow> game_tuple list \<Rightarrow> database \<Rightarrow> (exn + nat) \<times> database" where
  "upsert_games_statement W now page db =
     (case adapt_all W page of
        Inl e \<Rightarrow> (Inl e, db)
      | Inr vs \<Rightarrow>
     (case table_error db ''nfl_games'' nfl_games_ddl of
        Some e \<Rightarrow> (Inl e, db)
      | None \<Rightarrow>
         (case upsert_game_rows now vs (nfl_games db, nfl_games_id_seq db, []) of
            Inl (e, seq) \<Rightarrow> (Inl e, db\<lparr>nfl_games_id_seq := seq\<rparr>)
          | Inr (rows, seq, touched) \<Rightarrow>
              (Inr (length vs), db\<lparr>nfl_games := rows, nfl_games_id_seq := seq\<rparr>))))"

section \<open>The script\<close>

text \<open>
  What the process does to the outside, in order: a line printed, an HTTP GET issued, a
  database connection attempted. The state of a run is the committed database and this
  trace. Once open, a connection is taken to stay up: \<^verbatim>\<open>cursor()\<close>, \<^verbatim>\<open>commit()\<close> and
  \<^verbatim>\<open>close()\<close> return.
\<close>

datatype event = Printed string | HttpGet string | DbConnect string

record sys =
  store :: database
  trace :: "event list"

definition print :: "string \<Rightarrow> sys \<Rightarrow> sys" where
  "print line s = s\<lparr>trace := trace s @ [Printed line]\<rparr>"

subsection \<open>get\_db\_connection (lines 9-19)\<close>

text \<open>\<^verbatim>\<open>if not database_url\<close> holds for an unset variable and for an empty one.\<close>

definition get_db_connection :: "world \<Rightarrow> sys \<Rightarrow> unit outcome \<times> sys" where
  "get_db_connection W s =
     (case w_env W of
        None \<Rightarrow> (Raised (Exn ValueError ''DATABASE_URL environment variable not set''), s)
      | Some database_url \<Rightarrow>
          if database_url = [] then
            (Raised (Exn ValueError ''DATABASE_URL environment variable not set''), s)
          else
            (case w_connect W (length (trace s)) database_url of
               Some e \<Rightarrow> (Raised e, s\<lparr>trace := trace s @ [DbConnect database_url]\<rparr>)
             | None \<Rightarrow> (Returned (), s\<lparr>trace := trace s @ [DbConnect database_url]\<rparr>)))"

subsection \<open>create\_tables (lines 22-98)\<close>

definition create_tables :: "world \<Rightarrow> sys \<Rightarrow> unit outcome \<times> sys" where
  "create_tables W s =
     (case get_db_connection W s of
        (Raised e, s1) \<Rightarrow> (Raised e, s1)
      | (Returned conn, s1) \<Rightarrow>
         (case create_statements (store s1) of
            Inl e \<Rightarrow> (Raised e, s1)
          | Inr db \<Rightarrow> (Returned (), print ''Tables created successfully'' (s1\<lparr>store := db\<rparr>))))"

subsection \<open>populate\_teams (lines 101-154)\<close>

definition teams :: "(string \<times> string \<times> string \<times> string) list" where
  "teams =
     [(''Arizona Cardinals'', ''ARI'', ''NFC'', ''West''),
      (''Atlanta Falcons'', ''ATL'', ''NFC'', ''South''),
      (''Baltimore Ravens'', ''BAL'', ''AFC'', ''North''),
      (''Buffalo Bills'', ''BUF'', ''AFC'', ''East''),
      (''Carolina Panthers'', ''CAR'', ''NFC'', ''South''),
      (''Chicago Bears'', ''CHI'', ''NFC'', ''North''),
      (''Cincinnati Bengals'', ''CIN'', ''AFC'', ''North''),
      (''Cleveland Browns'', ''CLE'', ''AFC'', ''North''),
      (''Dallas Cowboys'', ''DAL'', ''NFC'', ''East''),
      (''Denver Broncos'', ''DEN'', ''AFC'', ''West''),
      (''Detroit Lions'', ''DET'', ''NFC'', ''North''),
      (''Green Bay Packers'', ''GB'', ''NFC'', ''North''),
      (''Houston Texans'', ''HOU'', ''AFC'', ''South''),
      (''Indianapolis Colts'', ''IND'', ''AFC'', ''South''),
      (''Jacksonville Jaguars'', ''JAX'', ''AFC'', ''South''),
      (''Kansas City Chiefs'', ''KC'', ''AFC'', ''West''),
      (''Las Vegas Raiders'', ''LV'', ''AFC'', ''West''),
      (''Los Angeles Chargers'', ''LAC'', ''AFC'', ''West''),
      (''Los Angeles Rams'', ''LAR'', ''NFC'', ''West''),
      (''Miami Dolphins'', ''MIA'', ''AFC'', ''East''),
      (''Minnesota Vikings'', ''MIN'', ''NFC'', ''North''),
      (''New England Patriots'', ''NE'', ''AFC'', ''East''),
      (''New Orleans Saints'', ''NO'', ''NFC'', ''South''),
      (''New York Giants'', ''NYG'', ''NFC'', ''East''),
      (''New York Jets'', ''NYJ'', ''AFC'', ''East''),
      (''Philadelphia Eagles'', ''PHI'', ''NFC'', ''East''),
      (''Pittsburgh Steelers'', ''PIT'', ''AFC'', ''North''),
      (''San Francisco 49ers'', ''SF'', ''NFC'', ''West''),
      (''Seattle Seahawks'', ''SEA'', ''NFC'', ''West''),
      (''Tampa Bay Buccaneers'', ''TB'', ''NFC'', ''South''),
      (''Tennessee Titans'', ''TEN'', ''AFC'', ''South''),
      (''Washington Commanders'', ''WAS'', ''NFC'', ''East'')]"

definition populate_teams :: "world \<Rightarrow> sys \<Rightarrow> unit outcome \<times> sys" where
  "populate_teams W s =
     (case get_db_connection W s of
        (Raised e, s1) \<Rightarrow> (Raised e, s1)
      | (Returned conn, s1) \<Rightarrow>
         (case execute_values (insert_teams_statement (w_now W (length (trace s1)))) teams
                 (store s1) of
            (Inl e, db) \<Rightarrow> (Raised e, s1\<lparr>store := rollback (store s1) db\<rparr>)
          | (Inr rowcount, db) \<Rightarrow>
              (Returned (),
               print (''Inserted '' @ str_int rowcount @ '' teams'') (s1\<lparr>store := db\<rparr>))))"

subsection \<open>populate\_games (lines 157-237)\<close>

definition games_url :: "int \<Rightarrow> int option \<Rightarrow> string" where
  "games_url season week =
     (if week_given week then
        ''https://site.api.espn.com/apis/site/v2/sports/football/nfl/scoreboard?dates=''
        @ str_int season @ ''&seasontype=2&week='' @ str_int (the week)
      else
        ''https://site.api.espn.com/apis/site/v2/sports/football/nfl/scoreboard?dates=''
        @ str_int season)"

text \<open>The body of the \<^verbatim>\<open>try\<close> block (lines 164-234).\<close>

definition populate_games_try :: "world \<Rightarrow> int \<Rightarrow> int option \<Rightarrow> sys \<Rightarrow> unit outcome \<times> sys" where
  "populate_games_try W season week s =
     (let url = games_url season week;
          s1 = s\<lparr>trace := trace s @ [HttpGet url]\<rparr>
      in
      case w_http W (length (trace s)) url of
        Inl e \<Rightarrow> (Raised e, s1)
      | Inr response \<Rightarrow>
          if status_code response \<noteq> 200 then
            (Returned (),
             print (''Failed to fetch games: '' @ str_int (status_code response)) s1)
          else
           (case json_result response of
              Inl e \<Rightarrow> (Raised e, s1)
            | Inr data \<Rightarrow>
               (case parse_events W season week data of
                  Inl e \<Rightarrow> (Raised e, s1)
                | Inr games \<Rightarrow>
                    if games = [] then (Returned (), s1)
                    else
                     (case get_db_connection W s1 of
                        (Raised e, s2) \<Rightarrow> (Raised e, s2)
                      | (Returned conn, s2) \<Rightarrow>
                         (case execute_values
                                 (upsert_games_statement W (w_now W (length (trace s2))))
                                 games (store s2) of
                            (Inl e, db) \<Rightarrow> (Raised e, s2\<lparr>store := rollback (store s2) db\<rparr>)
                          | (Inr rowcount, db) \<Rightarrow>
                              (Returned (),
                               print (''Inserted/updated '' @ str_nat (length games) @ '' games'')
                                 (s2\<lparr>store := db\<rparr>)))))))"

text \<open>The \<^verbatim>\<open>except Exception as e\<close> clause (lines 236-237).\<close>

definition populate_games :: "world \<Rightarrow> int \<Rightarrow> int option \<Rightarrow> sys \<Rightarrow> unit outcome \<times> sys" where
  "populate_games W season week s =
     (case populate_games_try W season week s of
        (Raised e, s') \<Rightarrow> (Returned (), print (''Error populating games: '' @ exn_msg e) s')
      | (Returned u, s') \<Rightarrow> (Returned u, s'))"

subsection \<open>main (lines 239-260)\<close>

definition current_week :: int where
  "current_week = 11"

text \<open>The loop \<^verbatim>\<open>for week in range(1, current_week + 1)\<close> over the weeks still to do.\<close>

fun weeks_loop :: "world \<Rightarrow> int list \<Rightarrow> sys \<Rightarrow> unit outcome \<times> sys" where
  "weeks_loop W [] s = (Returned (), s)"
| "weeks_loop W (week # weeks) s =
     (case populate_games W 2025 (Some week)
             (print (''   Fetching week '' @ str_int week @ ''...'') s) of
        (Raised e, s') \<Rightarrow> (Raised e, s')
      | (Returned u, s') \<Rightarrow> weeks_loop W weeks s')"

definition main :: "world \<Rightarrow> sys \<Rightarrow> unit outcome \<times> sys" where
  "main W s =
     (case create_tables W
             (print (CHR 0x0A # ''1. Creating tables...'')
               (print ''Starting NFL data population...'' s)) of
        (Raised e, s1) \<Rightarrow> (Raised e, s1)
      | (Returned u, s1) \<Rightarrow>
     (case populate_teams W (print (CHR 0x0A # ''2. Populating teams...'') s1) of
        (Raised e, s2) \<Rightarrow> (Raised e, s2)
      | (Returned u, s2) \<Rightarrow>
     (case weeks_loop W [1..current_week]
             (print (CHR 0x0A # ''3. Populating games for 2025 season...'') s2) of
        (Raised e, s3) \<Rightarrow> (Raised e, s3)
      | (Returned u, s3) \<Rightarrow>
          (Returned (), print (CHR 0x0A # ''NFL data population completed!'') s3))))"

section \<open>Observations and test doubles\<close>

text \<open>The requests in a trace.\<close>

fun http_gets :: "event list \<Rightarrow> string list" where
  "http_gets [] = []"
| "http_gets (HttpGet u # es) = u # http_gets es"
| "http_gets (e # es) = http_gets es"

text \<open>
  The columns of \<^verbatim>\<open>nfl_games\<close> that the \<^verbatim>\<open>DO UPDATE SET\<close> list does not name: id, game\_id,
  season, week, game\_date, home\_team, away\_team, created\_at.
\<close>

definition kept_columns ::
  "game_row \<Rightarrow> nat \<times> string option \<times> int option \<times> int option \<times> string option \<times> string option
     \<times> string option \<times> nat" where
  "kept_columns r =
     (g_id r, g_game_id r, g_season r, g_week r, g_game_date r, g_home_team r, g_away_team r,
      g_created_at r)"

text \<open>Running create\_tables a number of times in a row.\<close>

fun create_tables_times :: "world \<Rightarrow> nat \<Rightarrow> sys \<Rightarrow> unit outcome \<times> sys" where
  "create_tables_times W 0 s = (Returned (), s)"
| "create_tables_times W (Suc n) s =
     (case create_tables W s of
        (Raised e, s') \<Rightarrow> (Raised e, s')
      | (Returned u, s') \<Rightarrow> create_tables_times W n s')"

text \<open>
  A world for running the script on concrete inputs: \<^verbatim>\<open>int()\<close> reads plain decimal digits,
  and the database takes strings and integers for its text and integer columns and
  rejects the empty string as a date.
\<close>

definition test_int_str :: "string \<Rightarrow> exn + int" where
  "test_int_str s =
     (if s \<noteq> [] \<and> list_all (\<lambda>c. c \<in> set ''0123456789'') s
      then Inr (int (foldl (\<lambda>n c. 10 * n + (of_char c - 48)) 0 s))
      else Inl (Exn ValueError (''invalid literal for int() with base 10: '' @ quoted s)))"

fun test_text :: "json \<Rightarrow> exn + string option" where
  "test_text JNull = Inr None"
| "test_text (JStr s) = Inr (Some s)"
| "test_text (JInt i) = Inr (Some (str_int i))"
| "test_text v =
     Inl (Exn (LibraryError ''psycopg2.ProgrammingError'')
            (''cannot adapt type '' @ quoted (type_name v)))"

fun test_integer :: "json \<Rightarrow> exn + int option" where
  "test_integer JNull = Inr None"
| "test_integer (JInt i) = Inr (Some i)"
| "test_integer v =
     Inl (Exn (LibraryError ''psycopg2.ProgrammingError'')
            (''cannot adapt type '' @ quoted (type_name v)))"

definition test_adapt :: "game_tuple \<Rightarrow> exn + game_values" where
  "test_adapt g =
     (case test_text (t_game_id g) of Inl e \<Rightarrow> Inl e | Inr gid \<Rightarrow>
     (case test_integer (t_week g) of Inl e \<Rightarrow> Inl e | Inr wk \<Rightarrow>
     (case test_text (t_home_team g) of Inl e \<Rightarrow> Inl e | Inr ht \<Rightarrow>
     (case test_text (t_away_team g) of Inl e \<Rightarrow> Inl e | Inr awt \<Rightarrow>
     (case test_text (t_status g) of Inl e \<Rightarrow> Inl e | Inr st \<Rightarrow>
       if t_game_date g = [] then
         Inl (sql_error ''InvalidDatetimeFormat'' ''invalid input syntax for type date'')
       else
         Inr \<lparr>v_game_id = gid, v_season = Some (t_season g), v_week = wk,
              v_game_date = Some (t_game_date g), v_home_team = ht, v_away_team = awt,
              v_home_score = t_home_score g, v_away_score = t_away_score g,
              v_status = st\<rparr>)))))"

definition competitor :: "string \<Rightarrow> string \<Rightarrow> (string \<times> json) list \<Rightarrow> json" where
  "competitor side abbr rest =
     JObj ([(''homeAway'', JStr side), (''team'', JObj [(''abbreviation'', JStr abbr)])] @ rest)"

text \<open>
  The synthetic scoreboard: a final game, home AAA 10, away BBB 7, and a game with neither
  scores nor a status.
\<close>

definition synthetic :: json where
  "synthetic = JObj [(''events'', JArr
     [JObj [(''id'', JStr ''401''), (''date'', JStr ''2025-09-07T17:00Z''),
            (''competitions'', JArr [JObj
               [(''competitors'', JArr
                   [competitor ''home'' ''AAA'' [(''score'', JInt 10)],
                    competitor ''away'' ''BBB'' [(''score'', JInt 7)]]),
                (''status'', JObj [(''type'', JObj [(''name'', JStr ''final'')])])]])],
      JObj [(''id'', JStr ''402''), (''date'', JStr ''2025-09-08T00:20Z''),
            (''competitions'', JArr [JObj
               [(''competitors'', JArr
                   [competitor ''home'' ''CCC'' [],
                    competitor ''away'' ''DDD'' []])]])]])]"

definition test_world :: world where
  "test_world =
     \<lparr>w_env = Some ''postgresql://localhost/nfl'',
      w_connect = (\<lambda>t url. None),
      w_http = (\<lambda>t url. Inr \<lparr>status_code = 200, json_result = Inr synthetic\<rparr>),
      w_now = (\<lambda>t. t),
      w_int_str = test_int_str,
      w_adapt = test_adapt\<rparr>"

text \<open>A database with no table, and one as create\_tables leaves it.\<close>

definition empty_db :: database where
  "empty_db =
     \<lparr>catalog = [], nfl_teams = [], nfl_teams_id_seq = 1, nfl_games = [],
      nfl_games_id_seq = 1\<rparr>"

definition ready_db :: database where
  "ready_db =
     \<lparr>catalog = [(''nfl_teams'', nfl_teams_ddl), (''nfl_games'', nfl_games_ddl),
                 (''nfl_players'', nfl_players_ddl),
                 (''nfl_player_stats'', nfl_player_stats_ddl)],
      nfl_teams = [], nfl_teams_id_seq = 1, nfl_games = [], nfl_games_id_seq = 1\<rparr>"

text \<open>
  Worlds whose endpoint answers with a malformed body, with status 503, and with events
  that have no competitions.
\<close>

definition malformed_world :: world where
  "malformed_world =
     test_world\<lparr>w_http := (\<lambda>t url. Inr \<lparr>status_code = 200,
        json_result = Inr (JObj [(''events'', JArr [JNull])])\<rparr>)\<rparr>"

definition failing_world :: world where
  "failing_world =
     test_world\<lparr>w_http := (\<lambda>t url. Inr \<lparr>status_code = 503,
        json_result = Inl (Exn (LibraryError ''requests.exceptions.JSONDecodeError'')
                             ''Expecting value: line 1 column 1 (char 0)'')\<rparr>)\<rparr>"

definition idle_scoreboard :: json where
  "idle_scoreboard = JObj [(''events'', JArr
     [JObj [(''id'', JStr ''501''), (''date'', JStr ''2025-11-02T18:00Z'')],
      JObj [(''id'', JStr ''502''), (''competitions'', JArr [])]])]"

definition idle_world :: world where
  "idle_world =
     test_world\<lparr>w_http := (\<lambda>t url. Inr \<lparr>status_code = 200,
        json_result = Inr idle_scoreboard\<rparr>)\<rparr>"

text \<open>A database where another table already goes by the name \<^verbatim>\<open>nfl_teams\<close>.\<close>

definition legacy_db :: database where
  "legacy_db =
     \<lparr>catalog = [(''nfl_teams'', nfl_games_ddl)], nfl_teams = [], nfl_teams_id_seq = 1,
      nfl_games = [], nfl_games_id_seq = 1\<rparr>"

text \<open>The row that \<open>insert_team\<close> adds for a tuple, given the value drawn for its id.\<close>

definition new_team_row :: "nat \<Rightarrow> nat \<Rightarrow> string \<times> string \<times> string \<times> string \<Rightarrow> team_row" where
  "new_team_row now i t =
     (case t of (team_name, team_abbr, conference, division) \<Rightarrow>
        \<lparr>tm_id = i, tm_team_name = team_name, tm_team_abbr = team_abbr,
         tm_conference = Some conference, tm_division = Some division, tm_created_at = now\<rparr>)"

text \<open>
  A database that holds the two games of the synthetic scoreboard, and a later answer of
  the endpoint for the second of them: played, and with another date and other teams.
\<close>

definition row_401 :: game_row where
  "row_401 =
     \<lparr>g_id = 1, g_game_id = Some ''401'', g_season = Some 2025, g_week = Some 1,
      g_game_date = Some ''2025-09-07'', g_home_team = Some ''AAA'', g_away_team = Some ''BBB'',
      g_home_score = Some 10, g_away_score = Some 7, g_status = Some ''final'',
      g_created_at = 0, g_updated_at = 0\<rparr>"

definition row_402 :: game_row where
  "row_402 =
     \<lparr>g_id = 2, g_game_id = Some ''402'', g_season = Some 2025, g_week = Some 1,
      g_game_date = Some ''2025-09-08'', g_home_team = Some ''CCC'', g_away_team = Some ''DDD'',
      g_home_score = Some 0, g_away_score = Some 0, g_status = Some ''scheduled'',
      g_created_at = 0, g_updated_at = 0\<rparr>"

definition played_db :: database where
  "played_db = ready_db\<lparr>nfl_games := [row_401, row_402], nfl_games_id_seq := 3\<rparr>"

definition later_scoreboard :: json where
  "later_scoreboard = JObj [(''events'', JArr
     [JObj [(''id'', JStr ''402''), (''date'', JStr ''2025-09-09T01:00Z''),
            (''competitions'', JArr [JObj
               [(''competitors'', JArr
                   [competitor ''home'' ''EEE'' [(''score'', JStr ''21'')],
                    competitor ''away'' ''FFF'' [(''score'', JStr ''14'')]]),
                (''status'', JObj [(''type'', JObj [(''name'', JStr ''final'')])])]])]])]"

definition later_values :: game_values where
  "later_values =
     \<lparr>v_game_id = Some ''402'', v_season = Some 2025, v_week = Some 2,
      v_game_date = Some ''2025-09-09'', v_home_team = Some ''EEE'', v_away_team = Some ''FFF'',
      v_home_score = Some 21, v_away_score = Some 14, v_status = Some ''final''\<rparr>"

definition later_world :: world where
  "later_world =
     test_world\<lparr>w_http := (\<lambda>t url. Inr \<lparr>status_code = 200,
        json_result = Inr later_scoreboard\<rparr>)\<rparr>"

text \<open>
  A scoreboard whose events have no competitions and dates that are not strings, and a
  teams table that holds two rows already: one with an abbreviation of the list under
  another name, one with a name of the list under another abbreviation.
\<close>

definition undated_scoreboard :: json where
  "undated_scoreboard = JObj [(''events'', JArr
     [JObj [(''id'', JStr ''503''), (''date'', JNull)],
      JObj [(''id'', JStr ''504''), (''date'', JInt 5), (''competitions'', JArr [])]])]"

definition undated_world :: world where
  "undated_world =
     test_world\<lparr>w_http := (\<lambda>t url. Inr \<lparr>status_code = 200,
        json_result = Inr undated_scoreboard\<rparr>)\<rparr>"

definition partial_db :: database where
  "partial_db =
     ready_db\<lparr>nfl_teams :=
       [\<lparr>tm_id = 1, tm_team_name = ''Buffalo'', tm_team_abbr = ''BUF'',
         tm_conference = None, tm_division = None, tm_created_at = 0\<rparr>,
        \<lparr>tm_id = 2, tm_team_name = ''Chicago Bears'', tm_team_abbr = ''CHB'',
         tm_conference = Some ''NFC'', tm_division = Some ''North'', tm_created_at = 0\<rparr>],
       nfl_teams_id_seq := 3\<rparr>"

section \<open>The competitors of a game (C9)\<close>






section \<open>Defaults while parsing (C2)\<close>

lemma synthetic_parsed:
  "parse_events W season (Some 1) synthetic =
     Inr [\<lparr>t_game_id = JStr ''401'', t_season = season, t_week = JInt 1,
           t_game_date = ''2025-09-07'', t_home_team = JStr ''AAA'', t_away_team = JStr ''BBB'',
           t_home_score = Some 10, t_away_score = Some 7, t_status = JStr ''final''\<rparr>,
          \<lparr>t_game_id = JStr ''402'', t_season = season, t_week = JInt 1,
           t_game_date = ''2025-09-08'', t_home_team = JStr ''CCC'', t_away_team = JStr ''DDD'',
           t_home_score = Some 0, t_away_score = Some 0, t_status = JStr ''scheduled''\<rparr>]"
  by (simp add: parse_events_def synthetic_def parse_event_def competitor_def
      competitor_step_def home_away_def team_abbreviation_def score_def status_name_def
      week_value_def)

text \<open>
  Claim C2. A competitor without a \<^verbatim>\<open>score\<close> entry has score 0. A competition whose path
  \<^verbatim>\<open>status.type.name\<close> breaks off at a missing key has status \<^verbatim>\<open>scheduled\<close>. The synthetic
  scoreboard (a final game, home AAA 10, away BBB 7, and a game with no scores and no
  status) parses to exactly two tuples carrying the identifiers of the two events, and
  the run on it, against a database with empty tables, leaves exactly two rows: 10 and 7
  and \<^verbatim>\<open>final\<close> for the first, 0 and 0 and \<^verbatim>\<open>scheduled\<close> for the second.
\<close>

theorem score_and_status_defaults:
  "(map_of ckvs ''score'' = None \<longrightarrow> score W (JObj ckvs) = Inr 0) \<and>
   (map_of kvs ''status'' = None \<or>
    (\<exists>st. map_of kvs ''status'' = Some (JObj st) \<and>
       (map_of st ''type'' = None \<or>
        (\<exists>ty. map_of st ''type'' = Some (JObj ty) \<and> map_of ty ''name'' = None)))
      \<longrightarrow> status_name (JObj kvs) = Inr (JStr ''scheduled'')) \<and>
   parse_events W season (Some 1) synthetic =
     Inr [\<lparr>t_game_id = JStr ''401'', t_season = season, t_week = JInt 1,
           t_game_date = ''2025-09-07'', t_home_team = JStr ''AAA'', t_away_team = JStr ''BBB'',
           t_home_score = Some 10, t_away_score = Some 7, t_status = JStr ''final''\<rparr>,
          \<lparr>t_game_id = JStr ''402'', t_season = season, t_week = JInt 1,
           t_game_date = ''2025-09-08'', t_home_team = JStr ''CCC'', t_away_team = JStr ''DDD'',
           t_home_score = Some 0, t_away_score = Some 0, t_status = JStr ''scheduled''\<rparr>] \<and>
   map (\<lambda>r. (g_game_id r, g_home_score r, g_away_score r, g_status r))
     (nfl_games (store (snd (populate_games test_world 2025 (Some 1)
        \<lparr>store = ready_db, trace = []\<rparr>)))) =
     [(Some ''401'', Some 10, Some 7, Some ''final''),
      (Some ''402'', Some 0, Some 0, Some ''scheduled'')]"
proof (intro conjI impI)
  assume "map_of ckvs ''score'' = None"
  then show "score W (JObj ckvs) = Inr 0"
    by (simp add: score_def)
next
  assume "map_of kvs ''status'' = None \<or>
    (\<exists>st. map_of kvs ''status'' = Some (JObj st) \<and>
       (map_of st ''type'' = None \<or>
        (\<exists>ty. map_of st ''type'' = Some (JObj ty) \<and> map_of ty ''name'' = None)))"
  then show "status_name (JObj kvs) = Inr (JStr ''scheduled'')"
    by (auto simp: status_name_def)
next
  show "parse_events W season (Some 1) synthetic =
     Inr [\<lparr>t_game_id = JStr ''401'', t_season = season, t_week = JInt 1,
           t_game_date = ''2025-09-07'', t_home_team = JStr ''AAA'', t_away_team = JStr ''BBB'',
           t_home_score = Some 10, t_away_score = Some 7, t_status = JStr ''final''\<rparr>,
          \<lparr>t_game_id = JStr ''402'', t_season = season, t_week = JInt 1,
           t_game_date = ''2025-09-08'', t_home_team = JStr ''CCC'', t_away_team = JStr ''DDD'',
           t_home_score = Some 0, t_away_score = Some 0, t_status = JStr ''scheduled''\<rparr>]"
    by (rule synthetic_parsed)
next
  show "map (\<lambda>r. (g_game_id r, g_home_score r, g_away_score r, g_status r))
     (nfl_games (store (snd (populate_games test_world 2025 (Some 1)
        \<lparr>store = ready_db, trace = []\<rparr>)))) =
     [(Some ''401'', Some 10, Some 7, Some ''final''),
      (Some ''402'', Some 0, Some 0, Some ''scheduled'')]"
    by (simp add: populate_games_def populate_games_try_def synthetic_parsed Let_def
        test_world_def get_db_connection_def execute_values_def paginate.simps
        upsert_games_statement_def test_adapt_def table_error_def ready_db_def upsert_game_def
        new_game_row_def print_def)
qed

theorem score_and_status_defaults_witness:
  "map_of [(''homeAway'', JStr ''home'')] ''score'' = None \<and>
   score test_world (JObj [(''homeAway'', JStr ''home'')]) = Inr 0 \<and>
   map_of [(''status'', JObj [(''type'', JObj [(''id'', JStr ''1'')])])] ''status''
     = Some (JObj [(''type'', JObj [(''id'', JStr ''1'')])]) \<and>
   map_of [(''type'', JObj [(''id'', JStr ''1'')])] ''type'' = Some (JObj [(''id'', JStr ''1'')]) \<and>
   map_of [(''id'', JStr ''1'')] ''name'' = None \<and>
   status_name (JObj [(''status'', JObj [(''type'', JObj [(''id'', JStr ''1'')])])])
     = Inr (JStr ''scheduled'') \<and>
   map (\<lambda>g. (t_game_id g, t_home_score g, t_away_score g, t_status g))
     (projr (parse_events test_world 2025 (Some 1) synthetic)) =
     [(JStr ''401'', Some 10, Some 7, JStr ''final''),
      (JStr ''402'', Some 0, Some 0, JStr ''scheduled'')]"
  using score_and_status_defaults
    [of "[(''homeAway'', JStr ''home'')]" test_world
        "[(''status'', JObj [(''type'', JObj [(''id'', JStr ''1'')])])]" 2025]
  by simp

section \<open>Exceptions and failed fetches (C3, C4)\<close>

lemma get_db_connection_store:
  "get_db_connection W s = (oc, s') \<Longrightarrow> store s' = store s"
  by (auto simp: get_db_connection_def split: option.splits if_splits)

lemma rollback_rows [simp]:
  "catalog (rollback c db) = catalog c"
  "nfl_teams (rollback c db) = nfl_teams c"
  "nfl_games (rollback c db) = nfl_games c"
  by (simp_all add: rollback_def)

lemma populate_games_returns: "fst (populate_games W season week s) = Returned ()"
  by (cases "populate_games_try W season week s"; cases "fst (populate_games_try W season week s)")
     (auto simp: populate_games_def)

lemma populate_games_try_raised:
  assumes "populate_games_try W season week s = (Raised e, s')"
  shows "catalog (store s') = catalog (store s) \<and> nfl_teams (store s') = nfl_teams (store s) \<and>
         nfl_games (store s') = nfl_games (store s)"
  using assms
  by (auto simp: populate_games_try_def Let_def print_def
           split: sum.splits if_splits prod.splits outcome.splits
           dest: get_db_connection_store)

lemma weeks_loop_step:
  "weeks_loop W (week # weeks) s =
     weeks_loop W weeks
       (snd (populate_games W 2025 (Some week)
               (print (''   Fetching week '' @ str_int week @ ''...'') s)))"
  using populate_games_returns
    [of W 2025 "Some week" "print (''   Fetching week '' @ str_int week @ ''...'') s"]
  by (auto split: prod.splits outcome.splits)

lemma populate_games_not_200:
  assumes "w_http W (length (trace s)) (games_url season week) = Inr r" "status_code r \<noteq> 200"
  shows "populate_games W season week s =
     (Returned (), s\<lparr>trace := trace s @ [HttpGet (games_url season week),
        Printed (''Failed to fetch games: '' @ str_int (status_code r))]\<rparr>)"
  using assms by (simp add: populate_games_def populate_games_try_def Let_def print_def)

text \<open>
  Claim C3. populate\_games never raises: whatever the world answers, it returns. When the
  body of its \<^verbatim>\<open>try\<close> block raises (during the fetch, the parse or the upsert), the call prints
  \<^verbatim>\<open>Error populating games:\<close> with the text of the exception and returns, the table
  definitions and the rows of both tables are those from before the call, and the loop of
  the driver goes on with the weeks that remain.
\<close>

theorem exceptions_are_swallowed:
  "fst (populate_games W season week s) = Returned () \<and>
   (populate_games_try W season week s = (Raised e, s') \<longrightarrow>
      populate_games W season week s =
        (Returned (), print (''Error populating games: '' @ exn_msg e) s') \<and>
      catalog (store s') = catalog (store s) \<and>
      nfl_teams (store s') = nfl_teams (store s) \<and>
      nfl_games (store s') = nfl_games (store s)) \<and>
   weeks_loop W (wk # wks) s =
     weeks_loop W wks
       (snd (populate_games W 2025 (Some wk)
               (print (''   Fetching week '' @ str_int wk @ ''...'') s)))"
proof (intro conjI impI)
  show "fst (populate_games W season week s) = Returned ()"
    by (rule populate_games_returns)
next
  assume a: "populate_games_try W season week s = (Raised e, s')"
  then show "populate_games W season week s =
        (Returned (), print (''Error populating games: '' @ exn_msg e) s')"
    by (simp add: populate_games_def)
  from populate_games_try_raised[OF a]
  show "catalog (store s') = catalog (store s)" "nfl_teams (store s') = nfl_teams (store s)"
    "nfl_games (store s') = nfl_games (store s)" by simp_all
next
  show "weeks_loop W (wk # wks) s =
     weeks_loop W wks
       (snd (populate_games W 2025 (Some wk)
               (print (''   Fetching week '' @ str_int wk @ ''...'') s)))"
    by (rule weeks_loop_step)
qed

theorem exceptions_are_swallowed_witness:
  "populate_games_try malformed_world 2025 (Some 3) \<lparr>store = ready_db, trace = []\<rparr> =
     (Raised (no_attribute JNull ''get''),
      \<lparr>store = ready_db, trace = [HttpGet (games_url 2025 (Some 3))]\<rparr>) \<and>
   populate_games malformed_world 2025 (Some 3) \<lparr>store = ready_db, trace = []\<rparr> =
     (Returned (),
      \<lparr>store = ready_db,
       trace = [HttpGet (games_url 2025 (Some 3)),
                Printed (''Error populating games: '' @ quoted ''NoneType''
                         @ '' object has no attribute '' @ quoted ''get'')]\<rparr>)"
  using exceptions_are_swallowed
    [of malformed_world 2025 "Some 3" "\<lparr>store = ready_db, trace = []\<rparr>"
        "no_attribute JNull ''get''"
        "\<lparr>store = ready_db, trace = [HttpGet (games_url 2025 (Some 3))]\<rparr>"]
  by (simp add: populate_games_try_def malformed_world_def test_world_def Let_def
      parse_events_def parse_event_def print_def no_attribute_def)

text \<open>
  Claim C4. When the endpoint answers with a status other than 200, populate\_games prints
  \<^verbatim>\<open>Failed to fetch games:\<close> with the status and returns; nothing is written and no
  connection is opened (the state changes by the request and the printed line only), and
  the loop of the driver goes on with the weeks that remain, from the same database.
\<close>

theorem not_200_writes_nothing:
  "(w_http W (length (trace s)) (games_url season week) = Inr r \<and> status_code r \<noteq> 200 \<longrightarrow>
      populate_games W season week s =
        (Returned (),
         s\<lparr>trace := trace s @ [HttpGet (games_url season week),
              Printed (''Failed to fetch games: '' @ str_int (status_code r))]\<rparr>)) \<and>
   (w_http W (Suc (length (trace s))) (games_url 2025 (Some wk)) = Inr r \<and>
    status_code r \<noteq> 200 \<longrightarrow>
      weeks_loop W (wk # wks) s =
        weeks_loop W wks
          (s\<lparr>trace := trace s @ [Printed (''   Fetching week '' @ str_int wk @ ''...''),
               HttpGet (games_url 2025 (Some wk)),
               Printed (''Failed to fetch games: '' @ str_int (status_code r))]\<rparr>))"
proof (intro conjI impI)
  assume "w_http W (length (trace s)) (games_url season week) = Inr r \<and> status_code r \<noteq> 200"
  then show "populate_games W season week s =
        (Returned (),
         s\<lparr>trace := trace s @ [HttpGet (games_url season week),
              Printed (''Failed to fetch games: '' @ str_int (status_code r))]\<rparr>)"
    by (simp add: populate_games_not_200)
next
  assume a: "w_http W (Suc (length (trace s))) (games_url 2025 (Some wk)) = Inr r \<and>
    status_code r \<noteq> 200"
  let ?s1 = "print (''   Fetching week '' @ str_int wk @ ''...'') s"
  from a have "w_http W (length (trace ?s1)) (games_url 2025 (Some wk)) = Inr r"
    by (simp add: print_def)
  from populate_games_not_200[OF this] a
  show "weeks_loop W (wk # wks) s =
        weeks_loop W wks
          (s\<lparr>trace := trace s @ [Printed (''   Fetching week '' @ str_int wk @ ''...''),
               HttpGet (games_url 2025 (Some wk)),
               Printed (''Failed to fetch games: '' @ str_int (status_code r))]\<rparr>)"
    by (simp add: print_def)
qed

theorem not_200_writes_nothing_witness:
  "status_code (projr (w_http failing_world 0 (games_url 2025 (Some 3)))) = 503 \<and>
   populate_games failing_world 2025 (Some 3) \<lparr>store = ready_db, trace = []\<rparr> =
     (Returned (),
      \<lparr>store = ready_db,
       trace = [HttpGet (games_url 2025 (Some 3)), Printed ''Failed to fetch games: 503'']\<rparr>) \<and>
   weeks_loop failing_world [10, 11] \<lparr>store = ready_db, trace = []\<rparr> =
     (Returned (),
      \<lparr>store = ready_db,
       trace = [Printed ''   Fetching week 10...'', HttpGet (games_url 2025 (Some 10)),
                Printed ''Failed to fetch games: 503'',
                Printed ''   Fetching week 11...'', HttpGet (games_url 2025 (Some 11)),
                Printed ''Failed to fetch games: 503'']\<rparr>)"
  using not_200_writes_nothing
    [of failing_world "\<lparr>store = ready_db, trace = []\<rparr>" 2025 "Some 3"
        "\<lparr>status_code = 503,
          json_result = Inl (Exn (LibraryError ''requests.exceptions.JSONDecodeError'')
                               ''Expecting value: line 1 column 1 (char 0)'')\<rparr>" 10 "[11]"]
    not_200_writes_nothing
    [of failing_world "\<lparr>store = ready_db,
           trace = [Printed ''   Fetching week 10...'', HttpGet (games_url 2025 (Some 10)),
                Printed ''Failed to fetch games: 503'']\<rparr>" 2025 "Some 3"
        "\<lparr>status_code = 503,
          json_result = Inl (Exn (LibraryError ''requests.exceptions.JSONDecodeError'')
                               ''Expecting value: line 1 column 1 (char 0)'')\<rparr>" 11 "[]"]
  by (simp add: failing_world_def test_world_def str_int_def str_nat.simps)

section \<open>No games, no connection (C10)\<close>

lemma events_loop_all_skipped:
  "\<forall>ev\<in>set evs. parse_event W season week ev = Inr None \<Longrightarrow>
   events_loop W season week evs games = Inr games"
  by (induction evs) auto

lemma parse_event_no_competitions:
  assumes "map_of kvs ''date'' = None \<or> (\<exists>d. map_of kvs ''date'' = Some (JStr d))"
    and "map_of kvs ''competitions'' = None \<or>
         (\<exists>c. map_of kvs ''competitions'' = Some c \<and> \<not> truthy c)"
  shows "parse_event W season week (JObj kvs) = Inr None"
  using assms by (auto simp: parse_event_def split: option.splits)

lemma populate_games_no_games:
  assumes "w_http W (length (trace s)) (games_url season week) = Inr r" "status_code r = 200"
    "json_result r = Inr data" "parse_events W season week data = Inr []"
  shows "populate_games W season week s =
     (Returned (), s\<lparr>trace := trace s @ [HttpGet (games_url season week)]\<rparr>)"
  using assms by (simp add: populate_games_def populate_games_try_def Let_def)

lemma parse_event_lacking:
  assumes "\<forall>kvs c. ev = JObj kvs \<and> map_of kvs ''competitions'' = Some c \<longrightarrow> \<not> truthy c"
  shows "parse_event W season week ev = Inr None \<or> (\<exists>e. parse_event W season week ev = Inl e)"
proof (cases ev)
  case (JObj kvs)
  with assms show ?thesis
    by (cases "map_of kvs ''competitions''")
       (auto simp: parse_event_def split: sum.splits option.splits)
qed (simp_all add: parse_event_def)

lemma events_loop_no_rows:
  assumes "\<forall>ev\<in>set evs. parse_event W season week ev = Inr None \<or>
             (\<exists>e. parse_event W season week ev = Inl e)"
  shows "events_loop W season week evs games = Inr games \<or>
         (\<exists>e. events_loop W season week evs games = Inl e)"
  using assms by (induction evs) auto

lemma populate_games_no_rows:
  assumes "w_http W (length (trace s)) (games_url season week) = Inr r" "status_code r = 200"
    "json_result r = Inr data"
    "parse_events W season week data = Inr [] \<or> (\<exists>e. parse_events W season week data = Inl e)"
  shows "fst (populate_games W season week s) = Returned () \<and>
         store (snd (populate_games W season week s)) = store s \<and>
         (trace (snd (populate_games W season week s)) =
            trace s @ [HttpGet (games_url season week)] \<or>
          (\<exists>e. trace (snd (populate_games W season week s)) =
            trace s @ [HttpGet (games_url season week),
                       Printed (''Error populating games: '' @ exn_msg e)]))"
  using assms by (auto simp: populate_games_def populate_games_try_def Let_def print_def)

lemma undated_run:
  "populate_games undated_world 2025 (Some 3) \<lparr>store = ready_db, trace = []\<rparr> =
     (Returned (),
      \<lparr>store = ready_db,
       trace = [HttpGet (games_url 2025 (Some 3)),
                Printed (''Error populating games: '' @ quoted ''NoneType''
                         @ '' object has no attribute '' @ quoted ''split'')]\<rparr>)"
  by (simp add: populate_games_def populate_games_try_def Let_def undated_world_def
      test_world_def undated_scoreboard_def parse_events_def parse_event_def print_def
      no_attribute_def)

text \<open>
  Claim C10. When the parse yields no tuple, populate\_games returns having issued the
  request and nothing else: no connection attempt, no line printed, the database as it
  was. The parse yields no tuple when the body has no \<^verbatim>\<open>events\<close> entry, or when that entry
  is a list of events that are all skipped; an event whose \<^verbatim>\<open>competitions\<close> entry is missing
  or empty is skipped when its date is absent or a string, and in any case yields no tuple
  (with another date the parse raises, the date being read first). So whenever the answer
  is a body without events, or with events that all lack competitions, whatever their
  dates, populate\_games returns, the database is as it was, and the trace has grown by
  the request and at most the line of the \<^verbatim>\<open>except\<close> clause: no connection is attempted.
\<close>

theorem no_games_no_connection:
  "(w_http W (length (trace s)) (games_url season week) = Inr r \<and> status_code r = 200 \<and>
    json_result r = Inr data \<and> parse_events W season week data = Inr [] \<longrightarrow>
      populate_games W season week s =
        (Returned (), s\<lparr>trace := trace s @ [HttpGet (games_url season week)]\<rparr>)) \<and>
   (map_of body ''events'' = None \<or>
    (\<exists>evs. map_of body ''events'' = Some (JArr evs) \<and>
       (\<forall>ev\<in>set evs. parse_event W season week ev = Inr None)) \<longrightarrow>
      parse_events W season week (JObj body) = Inr []) \<and>
   ((map_of kvs ''date'' = None \<or> (\<exists>d. map_of kvs ''date'' = Some (JStr d))) \<and>
    (map_of kvs ''competitions'' = None \<or>
     (\<exists>c. map_of kvs ''competitions'' = Some c \<and> \<not> truthy c)) \<longrightarrow>
      parse_event W season week (JObj kvs) = Inr None) \<and>
   ((\<forall>ekvs c. event = JObj ekvs \<and> map_of ekvs ''competitions'' = Some c \<longrightarrow> \<not> truthy c) \<longrightarrow>
      parse_event W season week event = Inr None \<or>
      (\<exists>e. parse_event W season week event = Inl e)) \<and>
   (w_http W (length (trace s)) (games_url season week) = Inr r2 \<and> status_code r2 = 200 \<and>
    json_result r2 = Inr (JObj body2) \<and>
    (map_of body2 ''events'' = None \<or>
     (\<exists>evs. map_of body2 ''events'' = Some (JArr evs) \<and>
        (\<forall>ev\<in>set evs. \<forall>ekvs c.
            ev = JObj ekvs \<and> map_of ekvs ''competitions'' = Some c \<longrightarrow> \<not> truthy c))) \<longrightarrow>
      fst (populate_games W season week s) = Returned () \<and>
      store (snd (populate_games W season week s)) = store s \<and>
      (trace (snd (populate_games W season week s)) =
         trace s @ [HttpGet (games_url season week)] \<or>
       (\<exists>e. trace (snd (populate_games W season week s)) =
         trace s @ [HttpGet (games_url season week),
                    Printed (''Error populating games: '' @ exn_msg e)])))"
proof (intro conjI impI)
  assume "w_http W (length (trace s)) (games_url season week) = Inr r \<and> status_code r = 200 \<and>
    json_result r = Inr data \<and> parse_events W season week data = Inr []"
  then show "populate_games W season week s =
        (Returned (), s\<lparr>trace := trace s @ [HttpGet (games_url season week)]\<rparr>)"
    by (simp add: populate_games_no_games)
next
  assume "map_of body ''events'' = None \<or>
    (\<exists>evs. map_of body ''events'' = Some (JArr evs) \<and>
       (\<forall>ev\<in>set evs. parse_event W season week ev = Inr None))"
  then show "parse_events W season week (JObj body) = Inr []"
    by (auto simp: parse_events_def events_loop_all_skipped)
next
  assume "(map_of kvs ''date'' = None \<or> (\<exists>d. map_of kvs ''date'' = Some (JStr d))) \<and>
    (map_of kvs ''competitions'' = None \<or>
     (\<exists>c. map_of kvs ''competitions'' = Some c \<and> \<not> truthy c))"
  then show "parse_event W season week (JObj kvs) = Inr None"
    by (intro parse_event_no_competitions) simp_all
next
  assume "\<forall>ekvs c. event = JObj ekvs \<and> map_of ekvs ''competitions'' = Some c \<longrightarrow> \<not> truthy c"
  then show "parse_event W season week event = Inr None \<or>
      (\<exists>e. parse_event W season week event = Inl e)"
    by (rule parse_event_lacking)
next
  assume a: "w_http W (length (trace s)) (games_url season week) = Inr r2 \<and>
    status_code r2 = 200 \<and> json_result r2 = Inr (JObj body2) \<and>
    (map_of body2 ''events'' = None \<or>
     (\<exists>evs. map_of body2 ''events'' = Some (JArr evs) \<and>
        (\<forall>ev\<in>set evs. \<forall>ekvs c.
            ev = JObj ekvs \<and> map_of ekvs ''competitions'' = Some c \<longrightarrow> \<not> truthy c)))"
  have p: "parse_events W season week (JObj body2) = Inr [] \<or>
           (\<exists>e. parse_events W season week (JObj body2) = Inl e)"
  proof (cases "map_of body2 ''events''")
    case None
    then show ?thesis by (simp add: parse_events_def)
  next
    case (Some x)
    with a obtain evs where evs: "x = JArr evs"
      "\<forall>ev\<in>set evs. \<forall>ekvs c.
          ev = JObj ekvs \<and> map_of ekvs ''competitions'' = Some c \<longrightarrow> \<not> truthy c"
      by auto
    then have "\<forall>ev\<in>set evs. parse_event W season week ev = Inr None \<or>
             (\<exists>e. parse_event W season week ev = Inl e)"
      by (intro ballI parse_event_lacking) blast
    from events_loop_no_rows[OF this, of "[]"] Some evs(1) show ?thesis
      by (simp add: parse_events_def)
  qed
  from a have h: "w_http W (length (trace s)) (games_url season week) = Inr r2"
    "status_code r2 = 200" "json_result r2 = Inr (JObj body2)"
    by simp_all
  from populate_games_no_rows[OF h p]
  show "fst (populate_games W season week s) = Returned ()"
    and "store (snd (populate_games W season week s)) = store s"
    and "trace (snd (populate_games W season week s)) =
         trace s @ [HttpGet (games_url season week)] \<or>
       (\<exists>e. trace (snd (populate_games W season week s)) =
         trace s @ [HttpGet (games_url season week),
                    Printed (''Error populating games: '' @ exn_msg e)])"
    by simp_all
qed

theorem no_games_no_connection_witness:
  "parse_event idle_world 2025 (Some 3)
     (JObj [(''id'', JStr ''501''), (''date'', JStr ''2025-11-02T18:00Z'')]) = Inr None \<and>
   parse_event idle_world 2025 (Some 3)
     (JObj [(''id'', JStr ''502''), (''competitions'', JArr [])]) = Inr None \<and>
   parse_events idle_world 2025 (Some 3) idle_scoreboard = Inr [] \<and>
   populate_games idle_world 2025 (Some 3) \<lparr>store = ready_db, trace = []\<rparr> =
     (Returned (), \<lparr>store = ready_db, trace = [HttpGet (games_url 2025 (Some 3))]\<rparr>) \<and>
   parse_event undated_world 2025 (Some 3) (JObj [(''id'', JStr ''503''), (''date'', JNull)]) =
     Inl (no_attribute JNull ''split'') \<and>
   w_http undated_world 0 (games_url 2025 (Some 3)) =
     Inr \<lparr>status_code = 200, json_result = Inr undated_scoreboard\<rparr> \<and>
   populate_games undated_world 2025 (Some 3) \<lparr>store = ready_db, trace = []\<rparr> =
     (Returned (),
      \<lparr>store = ready_db,
       trace = [HttpGet (games_url 2025 (Some 3)),
                Printed (''Error populating games: '' @ quoted ''NoneType''
                         @ '' object has no attribute '' @ quoted ''split'')]\<rparr>)"
  using no_games_no_connection
    [of idle_world "\<lparr>store = ready_db, trace = []\<rparr>" 2025 "Some 3"
        "\<lparr>status_code = 200, json_result = Inr idle_scoreboard\<rparr>" idle_scoreboard
        "[(''events'', JArr
           [JObj [(''id'', JStr ''501''), (''date'', JStr ''2025-11-02T18:00Z'')],
            JObj [(''id'', JStr ''502''), (''competitions'', JArr [])]])]"
        "[(''id'', JStr ''501''), (''date'', JStr ''2025-11-02T18:00Z'')]"
        "JObj [(''id'', JStr ''502''), (''competitions'', JArr [])]"
        "\<lparr>status_code = 200, json_result = Inr idle_scoreboard\<rparr>"
        "[(''events'', JArr
           [JObj [(''id'', JStr ''501''), (''date'', JStr ''2025-11-02T18:00Z'')],
            JObj [(''id'', JStr ''502''), (''competitions'', JArr [])]])]"]
    no_games_no_connection
    [of undated_world "\<lparr>store = ready_db, trace = []\<rparr>" 2025 "Some 3"
        "\<lparr>status_code = 200, json_result = Inr undated_scoreboard\<rparr>" undated_scoreboard
        "[]" "[(''id'', JStr ''502''), (''competitions'', JArr [])]"
        "JObj [(''id'', JStr ''503''), (''date'', JNull)]"
        "\<lparr>status_code = 200, json_result = Inr undated_scoreboard\<rparr>"
        "[(''events'', JArr
           [JObj [(''id'', JStr ''503''), (''date'', JNull)],
            JObj [(''id'', JStr ''504''), (''date'', JInt 5), (''competitions'', JArr [])]])]"]
  by (simp add: undated_run)
     (simp add: idle_world_def undated_world_def test_world_def idle_scoreboard_def
        undated_scoreboard_def parse_event_def)

section \<open>The connection provider (C6)\<close>

lemma get_db_connection_unset:
  assumes "w_env W = None \<or> w_env W = Some []"
  shows "get_db_connection W s =
     (Raised (Exn ValueError ''DATABASE_URL environment variable not set''), s)"
  using assms by (auto simp: get_db_connection_def)

lemma get_db_connection_set:
  assumes "w_env W = Some url" "url \<noteq> []"
  shows "get_db_connection W s =
     (case w_connect W (length (trace s)) url of
        None \<Rightarrow> Returned ()
      | Some e \<Rightarrow> Raised e, s\<lparr>trace := trace s @ [DbConnect url]\<rparr>)"
  using assms by (auto simp: get_db_connection_def split: option.splits)

text \<open>
  Claim C6, as amended. When \<^verbatim>\<open>DATABASE_URL\<close> is unset or empty, get\_db\_connection raises
  the \<^verbatim>\<open>ValueError\<close> before any connection attempt, and main ends with that exception
  having printed its first two lines and nothing else: no connection attempted, the
  database untouched. When the variable holds a non-empty URL, the URL goes to the
  database driver, and the call returns the connection if the driver gives one and raises
  the driver's exception if not.
\<close>

theorem missing_url_is_fatal:
  "(w_env W = None \<or> w_env W = Some [] \<longrightarrow>
      get_db_connection W s =
        (Raised (Exn ValueError ''DATABASE_URL environment variable not set''), s) \<and>
      main W s =
        (Raised (Exn ValueError ''DATABASE_URL environment variable not set''),
         s\<lparr>trace := trace s @ [Printed ''Starting NFL data population...'',
                                Printed (CHR 0x0A # ''1. Creating tables...'')]\<rparr>)) \<and>
   (w_env W = Some url \<and> url \<noteq> [] \<longrightarrow>
      get_db_connection W s =
        (case w_connect W (length (trace s)) url of
           None \<Rightarrow> Returned ()
         | Some e \<Rightarrow> Raised e, s\<lparr>trace := trace s @ [DbConnect url]\<rparr>))"
proof (intro conjI impI)
  assume a: "w_env W = None \<or> w_env W = Some []"
  then show "get_db_connection W s =
        (Raised (Exn ValueError ''DATABASE_URL environment variable not set''), s)"
    by (rule get_db_connection_unset)
  show "main W s =
        (Raised (Exn ValueError ''DATABASE_URL environment variable not set''),
         s\<lparr>trace := trace s @ [Printed ''Starting NFL data population...'',
                                Printed (CHR 0x0A # ''1. Creating tables...'')]\<rparr>)"
    by (simp add: main_def create_tables_def get_db_connection_unset[OF a] print_def)
next
  assume "w_env W = Some url \<and> url \<noteq> []"
  then show "get_db_connection W s =
        (case w_connect W (length (trace s)) url of
           None \<Rightarrow> Returned ()
         | Some e \<Rightarrow> Raised e, s\<lparr>trace := trace s @ [DbConnect url]\<rparr>)"
    by (simp add: get_db_connection_set)
qed

text \<open>
  The claim as it stands says a connection is returned whenever the variable is present.
  It is not when the variable is present and empty, nor when the server refuses.
\<close>

theorem present_but_empty_url_counterexample:
  "w_env (test_world\<lparr>w_env := Some []\<rparr>) \<noteq> None \<and>
   get_db_connection (test_world\<lparr>w_env := Some []\<rparr>) \<lparr>store = empty_db, trace = []\<rparr> =
     (Raised (Exn ValueError ''DATABASE_URL environment variable not set''),
      \<lparr>store = empty_db, trace = []\<rparr>) \<and>
   w_env (test_world\<lparr>w_connect := (\<lambda>t url. Some (Exn (LibraryError
       ''psycopg2.OperationalError'') ''connection refused''))\<rparr>) \<noteq> None \<and>
   fst (get_db_connection
     (test_world\<lparr>w_connect := (\<lambda>t url. Some (Exn (LibraryError
       ''psycopg2.OperationalError'') ''connection refused''))\<rparr>)
     \<lparr>store = empty_db, trace = []\<rparr>) =
     Raised (Exn (LibraryError ''psycopg2.OperationalError'') ''connection refused'')"
  by (simp add: get_db_connection_def test_world_def)

theorem missing_url_is_fatal_witness:
  "w_env (test_world\<lparr>w_env := None\<rparr>) = None \<and>
   main (test_world\<lparr>w_env := None\<rparr>) \<lparr>store = empty_db, trace = []\<rparr> =
     (Raised (Exn ValueError ''DATABASE_URL environment variable not set''),
      \<lparr>store = empty_db,
       trace = [Printed ''Starting NFL data population...'',
                Printed (CHR 0x0A # ''1. Creating tables...'')]\<rparr>) \<and>
   w_env test_world = Some ''postgresql://localhost/nfl'' \<and>
   get_db_connection test_world \<lparr>store = empty_db, trace = []\<rparr> =
     (Returned (), \<lparr>store = empty_db, trace = [DbConnect ''postgresql://localhost/nfl'']\<rparr>)"
  using missing_url_is_fatal
    [of "test_world\<lparr>w_env := None\<rparr>" "\<lparr>store = empty_db, trace = []\<rparr>"
        "''postgresql://localhost/nfl''"]
    missing_url_is_fatal
    [of test_world "\<lparr>store = empty_db, trace = []\<rparr>" "''postgresql://localhost/nfl''"]
  by (simp add: test_world_def)

section \<open>Creating the schema again (C7)\<close>

lemma catalog_fresh_rows [simp]: "catalog (fresh_rows name db) = catalog db"
  by (simp add: fresh_rows_def)

lemma create_table_keeps:
  assumes "create_table_if_not_exists name td db = Inr db1"
    and "map_of (catalog db) n = Some x"
  shows "map_of (catalog db1) n = Some x"
  using assms
  by (auto simp: create_table_if_not_exists_def map_add_Some_iff split: option.splits list.splits)

lemma create_table_exists:
  assumes "create_table_if_not_exists name td db = Inr db1"
  shows "map_of (catalog db1) name \<noteq> None"
  using assms
  by (auto simp: create_table_if_not_exists_def map_add_Some_iff split: option.splits list.splits)

lemma create_table_noop:
  "map_of (catalog db) name = Some x \<Longrightarrow> create_table_if_not_exists name td db = Inr db"
  by (simp add: create_table_if_not_exists_def)

lemma create_statements_keeps:
  assumes "create_statements db = Inr db1" "map_of (catalog db) n = Some x"
  shows "map_of (catalog db1) n = Some x"
  using assms
  by (auto simp: create_statements_def split: sum.splits dest!: create_table_keeps)

lemma create_statements_exist:
  assumes "create_statements db = Inr db1"
  shows "map_of (catalog db1) ''nfl_teams'' \<noteq> None \<and> map_of (catalog db1) ''nfl_games'' \<noteq> None \<and>
         map_of (catalog db1) ''nfl_players'' \<noteq> None \<and>
         map_of (catalog db1) ''nfl_player_stats'' \<noteq> None"
proof -
  from assms obtain d1 d2 d3 where
    1: "create_table_if_not_exists ''nfl_teams'' nfl_teams_ddl db = Inr d1" and
    2: "create_table_if_not_exists ''nfl_games'' nfl_games_ddl d1 = Inr d2" and
    3: "create_table_if_not_exists ''nfl_players'' nfl_players_ddl d2 = Inr d3" and
    4: "create_table_if_not_exists ''nfl_player_stats'' nfl_player_stats_ddl d3 = Inr db1"
    by (auto simp: create_statements_def split: sum.splits)
  from create_table_exists[OF 1] obtain a where a: "map_of (catalog d1) ''nfl_teams'' = Some a"
    by auto
  from create_table_exists[OF 2] obtain b where b: "map_of (catalog d2) ''nfl_games'' = Some b"
    by auto
  from create_table_exists[OF 3] obtain c where c: "map_of (catalog d3) ''nfl_players'' = Some c"
    by auto
  have "map_of (catalog db1) ''nfl_teams'' = Some a"
    using create_table_keeps[OF 4 create_table_keeps[OF 3 create_table_keeps[OF 2 a]]] .
  moreover have "map_of (catalog db1) ''nfl_games'' = Some b"
    using create_table_keeps[OF 4 create_table_keeps[OF 3 b]] .
  moreover have "map_of (catalog db1) ''nfl_players'' = Some c"
    using create_table_keeps[OF 4 c] .
  ultimately show ?thesis using create_table_exists[OF 4] by simp
qed

lemma create_statements_idem:
  assumes "create_statements db = Inr db1"
  shows "create_statements db1 = Inr db1"
  using create_statements_exist[OF assms]
  by (auto simp: create_statements_def create_table_noop)

lemma create_tables_again:
  assumes "w_env W = Some url" "url \<noteq> []" "w_connect W (length (trace s)) url = None"
    and "create_statements (store s) = Inr (store s)"
  shows "create_tables W s =
     (Returned (), s\<lparr>trace := trace s @ [DbConnect url, Printed ''Tables created successfully'']\<rparr>)"
  using assms by (simp add: create_tables_def get_db_connection_set print_def)

lemma create_tables_returned:
  assumes "create_tables W s = (Returned (), s1)"
  shows "create_statements (store s) = Inr (store s1)"
  using assms
  by (auto simp: create_tables_def get_db_connection_def print_def
           split: option.splits if_splits sum.splits)

lemma create_tables_times_same:
  assumes "w_env W = Some url" "url \<noteq> []" "\<forall>t. w_connect W t url = None"
    and "create_statements (store s) = Inr (store s)"
  shows "fst (create_tables_times W n s) = Returned () \<and>
         store (snd (create_tables_times W n s)) = store s"
  using assms(4)
proof (induction n arbitrary: s)
  case 0
  then show ?case by simp
next
  case (Suc n)
  let ?s' = "s\<lparr>trace := trace s @ [DbConnect url, Printed ''Tables created successfully'']\<rparr>"
  have ct: "create_tables W s = (Returned (), ?s')"
    using create_tables_again[OF assms(1,2) _ Suc.prems] assms(3) by simp
  have "create_statements (store ?s') = Inr (store ?s')" using Suc.prems by simp
  from Suc.IH[OF this] ct show ?case by simp
qed

text \<open>
  Claim C7. The four statements of create\_tables are idempotent: on the database a run
  that raised nothing has left, they change nothing, and a table definition that was
  there before the run is still there after it (a table is created only if its name is
  free). So with a server that accepts connections, after one run of create\_tables that
  returned, any number of further runs return and leave the database as the first left it.
\<close>

theorem create_tables_idempotent:
  "(create_statements db = Inr db1 \<longrightarrow>
      create_statements db1 = Inr db1 \<and>
      (\<forall>name td. map_of (catalog db) name = Some td \<longrightarrow> map_of (catalog db1) name = Some td)) \<and>
   (w_env W = Some url \<and> url \<noteq> [] \<and> (\<forall>t. w_connect W t url = None) \<and>
    create_tables W s = (Returned (), s1) \<longrightarrow>
      fst (create_tables_times W n s1) = Returned () \<and>
      store (snd (create_tables_times W n s1)) = store s1)"
proof (intro conjI impI allI)
  assume a: "create_statements db = Inr db1"
  then show "create_statements db1 = Inr db1"
    by (rule create_statements_idem)
  fix name td
  assume "map_of (catalog db) name = Some td"
  with a show "map_of (catalog db1) name = Some td"
    by (rule create_statements_keeps)
next
  assume a: "w_env W = Some url \<and> url \<noteq> [] \<and> (\<forall>t. w_connect W t url = None) \<and>
    create_tables W s = (Returned (), s1)"
  then have "create_tables W s = (Returned (), s1)"
    by simp
  then have "create_statements (store s) = Inr (store s1)"
    by (rule create_tables_returned)
  then have again: "create_statements (store s1) = Inr (store s1)"
    by (rule create_statements_idem)
  from a have e: "w_env W = Some url" and u: "url \<noteq> []" and c: "\<forall>t. w_connect W t url = None"
    by simp_all
  from create_tables_times_same[OF e u c again, of n]
  show "fst (create_tables_times W n s1) = Returned ()"
    and "store (snd (create_tables_times W n s1)) = store s1"
    by simp_all
qed

lemma ddl_foreign_keys [simp]:
  "foreign_keys nfl_teams_ddl = []"
  "foreign_keys nfl_games_ddl = []"
  "foreign_keys nfl_players_ddl = []"
  "foreign_keys nfl_player_stats_ddl =
     [(''player_id'', ''nfl_players'', ''player_id''), (''game_id'', ''nfl_games'', ''game_id'')]"
  by (simp_all add: nfl_teams_ddl_def nfl_games_ddl_def nfl_players_ddl_def
      nfl_player_stats_ddl_def)

lemma ddl_referenced_unique [simp]:
  "list_ex (\<lambda>k. c_name k = ''player_id'' \<and> col_unique k) (columns nfl_players_ddl)"
  "list_ex (\<lambda>k. c_name k = ''game_id'' \<and> col_unique k) (columns nfl_games_ddl)"
  by (simp_all add: nfl_players_ddl_def nfl_games_ddl_def col_def col_unique_def)

lemma create_statements_empty_db: "create_statements empty_db = Inr ready_db"
  by (simp add: create_statements_def create_table_if_not_exists_def empty_db_def ready_db_def
      fresh_rows_def List.map_filter_simps fk_error_def)

lemma create_statements_ready_db: "create_statements ready_db = Inr ready_db"
  using create_statements_empty_db by (rule create_statements_idem)

lemma create_statements_legacy_db:
  "create_statements legacy_db =
     Inr (legacy_db\<lparr>catalog :=
            [(''nfl_teams'', nfl_games_ddl), (''nfl_games'', nfl_games_ddl),
             (''nfl_players'', nfl_players_ddl),
             (''nfl_player_stats'', nfl_player_stats_ddl)]\<rparr>)"
  by (simp add: create_statements_def create_table_if_not_exists_def legacy_db_def
      fresh_rows_def List.map_filter_simps fk_error_def)

lemma create_tables_test_world:
  "create_tables test_world \<lparr>store = empty_db, trace = []\<rparr> =
     (Returned (),
      \<lparr>store = ready_db,
       trace = [DbConnect ''postgresql://localhost/nfl'',
                Printed ''Tables created successfully'']\<rparr>)"
  by (simp add: create_tables_def get_db_connection_def test_world_def print_def
      create_statements_empty_db)

theorem create_tables_idempotent_witness:
  "create_statements legacy_db =
     Inr (legacy_db\<lparr>catalog :=
            [(''nfl_teams'', nfl_games_ddl), (''nfl_games'', nfl_games_ddl),
             (''nfl_players'', nfl_players_ddl),
             (''nfl_player_stats'', nfl_player_stats_ddl)]\<rparr>) \<and>
   create_statements (legacy_db\<lparr>catalog :=
            [(''nfl_teams'', nfl_games_ddl), (''nfl_games'', nfl_games_ddl),
             (''nfl_players'', nfl_players_ddl),
             (''nfl_player_stats'', nfl_player_stats_ddl)]\<rparr>) =
     Inr (legacy_db\<lparr>catalog :=
            [(''nfl_teams'', nfl_games_ddl), (''nfl_games'', nfl_games_ddl),
             (''nfl_players'', nfl_players_ddl),
             (''nfl_player_stats'', nfl_player_stats_ddl)]\<rparr>) \<and>
   map_of (catalog legacy_db) ''nfl_teams'' = Some nfl_games_ddl \<and>
   w_env test_world = Some ''postgresql://localhost/nfl'' \<and>
   (\<forall>t. w_connect test_world t ''postgresql://localhost/nfl'' = None) \<and>
   create_tables test_world \<lparr>store = empty_db, trace = []\<rparr> =
     (Returned (),
      \<lparr>store = ready_db,
       trace = [DbConnect ''postgresql://localhost/nfl'',
                Printed ''Tables created successfully'']\<rparr>) \<and>
   fst (create_tables_times test_world (Suc (Suc 0))
      \<lparr>store = ready_db,
       trace = [DbConnect ''postgresql://localhost/nfl'',
                Printed ''Tables created successfully'']\<rparr>) = Returned () \<and>
   store (snd (create_tables_times test_world (Suc (Suc 0))
      \<lparr>store = ready_db,
       trace = [DbConnect ''postgresql://localhost/nfl'',
                Printed ''Tables created successfully'']\<rparr>)) = ready_db"
  using create_tables_idempotent
    [of legacy_db
        "legacy_db\<lparr>catalog :=
            [(''nfl_teams'', nfl_games_ddl), (''nfl_games'', nfl_games_ddl),
             (''nfl_players'', nfl_players_ddl),
             (''nfl_player_stats'', nfl_player_stats_ddl)]\<rparr>"
        test_world "''postgresql://localhost/nfl''"
        "\<lparr>store = empty_db, trace = []\<rparr>"
        "\<lparr>store = ready_db,
          trace = [DbConnect ''postgresql://localhost/nfl'',
                   Printed ''Tables created successfully'']\<rparr>" "Suc (Suc 0)"]
  by (simp add: create_statements_legacy_db create_tables_test_world)
     (simp add: test_world_def legacy_db_def)

section \<open>Seeding the teams twice (C5)\<close>

lemma paginate_one_page: "xs \<noteq> [] \<Longrightarrow> length xs \<le> 100 \<Longrightarrow> paginate xs = [xs]"
  by (simp add: paginate.simps)

lemma teams_length: "length teams = 32"
  by (simp add: teams_def)

lemma teams_distinct: "distinct (map (\<lambda>t. fst (snd t)) teams)"
  by (simp add: teams_def)

lemma paginate_teams: "paginate teams = [teams]"
  by (rule paginate_one_page) (simp_all add: teams_def)

lemma insert_team_rows_all_present:
  "set (map (\<lambda>t. fst (snd t)) ts) \<subseteq> set (map tm_team_abbr rows) \<Longrightarrow>
   insert_team_rows now ts (rows, seq, n) = Inr (rows, seq + length ts, n)"
  by (induction ts arbitrary: seq) (auto simp: insert_team_def split: prod.splits)

lemma insert_team_abbrs:
  assumes "insert_team now t (rows, seq, n) = Inr (rows', seq', n')"
  shows "set (map tm_team_abbr rows') = insert (fst (snd t)) (set (map tm_team_abbr rows))"
  using assms by (auto simp: insert_team_def split: prod.splits if_splits)

lemma insert_team_rows_abbrs:
  assumes "insert_team_rows now ts (rows, seq, n) = Inr (rows', seq', n')"
  shows "set (map tm_team_abbr rows') = set (map (\<lambda>t. fst (snd t)) ts) \<union> set (map tm_team_abbr rows)"
  using assms
proof (induction ts arbitrary: rows seq n)
  case Nil
  then show ?case by simp
next
  case (Cons t ts)
  from Cons.prems obtain r1 s1 n1 where
    1: "insert_team now t (rows, seq, n) = Inr (r1, s1, n1)" and
    2: "insert_team_rows now ts (r1, s1, n1) = Inr (rows', seq', n')"
    by (auto split: sum.splits)
  from Cons.IH[OF 2] insert_team_abbrs[OF 1] show ?case by auto
qed

lemma insert_team_rows_fresh:
  assumes "distinct (map (\<lambda>t. fst (snd t)) ts)"
    and "set (map (\<lambda>t. fst (snd t)) ts) \<inter> set (map tm_team_abbr rows) = {}"
    and "\<forall>r\<in>set rows. tm_id r < seq"
  shows "insert_team_rows now ts (rows, seq, n) =
     Inr (rows @ map (\<lambda>(i, t). new_team_row now i t) (zip [seq..<seq + length ts] ts),
          seq + length ts, n + length ts)"
  using assms
proof (induction ts arbitrary: rows seq n)
  case Nil
  then show ?case by simp
next
  case (Cons t ts)
  obtain a b c d where t: "t = (a, b, c, d)" by (cases t) auto
  let ?rows1 = "rows @ [new_team_row now seq t]"
  from Cons.prems have 1: "insert_team now t (rows, seq, n) = Inr (?rows1, seq + 1, n + 1)"
    by (auto simp: insert_team_def new_team_row_def t)
  have "insert_team_rows now ts (?rows1, seq + 1, n + 1) =
     Inr (?rows1 @ map (\<lambda>(i, t). new_team_row now i t) (zip [seq + 1..<seq + 1 + length ts] ts),
          seq + 1 + length ts, n + 1 + length ts)"
    using Cons.prems by (intro Cons.IH) (auto simp: new_team_row_def t less_Suc_eq)
  moreover have "[seq..<Suc (seq + length ts)] = seq # [Suc seq..<Suc (seq + length ts)]"
    by (rule upt_conv_Cons) simp
  ultimately show ?case
    using 1 by (simp del: upt_Suc)
qed

lemma get_db_connection_ok:
  assumes "w_env W = Some url" "url \<noteq> []" "w_connect W (length (trace s)) url = None"
  shows "get_db_connection W s = (Returned (), s\<lparr>trace := trace s @ [DbConnect url]\<rparr>)"
  using assms by (simp add: get_db_connection_def)

lemma str_int_32: "str_int 32 = ''32''" "str_int 0 = ''0''"
  by (simp_all add: str_int_def str_nat.simps)

lemma populate_teams_fresh:
  assumes "w_env W = Some url" "url \<noteq> []" "w_connect W (length (trace s)) url = None"
    and "table_error (store s) ''nfl_teams'' nfl_teams_ddl = None"
    and "nfl_teams (store s) = []"
  shows "populate_teams W s =
     (Returned (),
      \<lparr>store = (store s)\<lparr>nfl_teams :=
                  map (\<lambda>(i, t). new_team_row (w_now W (Suc (length (trace s)))) i t)
                    (zip [nfl_teams_id_seq (store s)..<nfl_teams_id_seq (store s) + 32] teams),
                nfl_teams_id_seq := nfl_teams_id_seq (store s) + 32\<rparr>,
       trace = trace s @ [DbConnect url, Printed ''Inserted 32 teams'']\<rparr>)"
proof -
  have "insert_team_rows (w_now W (Suc (length (trace s)))) teams
          ([], nfl_teams_id_seq (store s), 0) =
        Inr ([] @ map (\<lambda>(i, t). new_team_row (w_now W (Suc (length (trace s)))) i t)
                    (zip [nfl_teams_id_seq (store s)..<nfl_teams_id_seq (store s) + length teams]
                         teams),
             nfl_teams_id_seq (store s) + length teams, 0 + length teams)"
    by (rule insert_team_rows_fresh) (simp_all add: teams_distinct)
  then show ?thesis
    using assms
    by (simp add: populate_teams_def get_db_connection_ok execute_values_def paginate_teams
        insert_teams_statement_def teams_length print_def str_int_32)
qed

lemma populate_teams_present:
  assumes "w_env W = Some url" "url \<noteq> []" "w_connect W (length (trace s)) url = None"
    and "table_error (store s) ''nfl_teams'' nfl_teams_ddl = None"
    and "set (map (\<lambda>t. fst (snd t)) teams) \<subseteq> set (map tm_team_abbr (nfl_teams (store s)))"
  shows "populate_teams W s =
     (Returned (),
      \<lparr>store = (store s)\<lparr>nfl_teams_id_seq := nfl_teams_id_seq (store s) + 32\<rparr>,
       trace = trace s @ [DbConnect url, Printed ''Inserted 0 teams'']\<rparr>)"
  using assms
  by (simp add: populate_teams_def get_db_connection_ok execute_values_def paginate_teams
      insert_teams_statement_def insert_team_rows_all_present teams_length print_def str_int_32)

lemma populate_teams_returned:
  assumes "populate_teams W s = (Returned (), s1)"
  shows "table_error (store s1) ''nfl_teams'' nfl_teams_ddl = None \<and>
         set (map (\<lambda>t. fst (snd t)) teams) \<subseteq> set (map tm_team_abbr (nfl_teams (store s1)))"
proof -
  from assms obtain sc where c: "get_db_connection W s = (Returned (), sc)"
    by (auto simp: populate_teams_def split: prod.splits outcome.splits)
  then have sc: "store sc = store s" by (rule get_db_connection_store)
  from assms c obtain rc db where
    ev: "run_pages (insert_teams_statement (w_now W (length (trace sc)))) [teams] (- 1) (store s)
           = (Inr rc, db)" and s1: "store s1 = db"
    by (auto simp: populate_teams_def execute_values_def paginate_teams sc print_def
        split: prod.splits sum.splits)
  from ev obtain n where
    st: "insert_teams_statement (w_now W (length (trace sc))) teams (store s) = (Inr n, db)"
    by (auto split: prod.splits sum.splits)
  then have te: "table_error (store s) ''nfl_teams'' nfl_teams_ddl = None"
    by (auto simp: insert_teams_statement_def split: option.splits)
  from st te obtain rows seq where
    ins: "insert_team_rows (w_now W (length (trace sc))) teams
            (nfl_teams (store s), nfl_teams_id_seq (store s), 0) = Inr (rows, seq, n)"
    and db: "db = (store s)\<lparr>nfl_teams := rows, nfl_teams_id_seq := seq\<rparr>"
    by (auto simp: insert_teams_statement_def split: sum.splits prod.splits)
  from insert_team_rows_abbrs[OF ins] te db s1 show ?thesis
    by (auto simp: table_error_def)
qed

lemma insert_team_rows_general:
  assumes "distinct (map (\<lambda>t. fst (snd t)) ts)"
    and "\<forall>r\<in>set rows. tm_id r < seq"
  shows "insert_team_rows now ts (rows, seq, n) =
     Inr (rows @ map (\<lambda>(i, t). new_team_row now i t)
                   (filter (\<lambda>(i, t). fst (snd t) \<notin> set (map tm_team_abbr rows))
                      (zip [seq..<seq + length ts] ts)),
          seq + length ts,
          n + length (filter (\<lambda>t. fst (snd t) \<notin> set (map tm_team_abbr rows)) ts))"
  using assms
proof (induction ts arbitrary: rows seq n)
  case Nil
  then show ?case by simp
next
  case (Cons t ts)
  obtain a b c d where t: "t = (a, b, c, d)" by (cases t) auto
  have u: "[seq..<Suc (seq + length ts)] = seq # [Suc seq..<Suc (seq + length ts)]"
    by (rule upt_conv_Cons) simp
  show ?case
  proof (cases "b \<in> set (map tm_team_abbr rows)")
    case True
    then have 1: "insert_team now t (rows, seq, n) = Inr (rows, seq + 1, n)"
      by (simp add: insert_team_def t)
    have "insert_team_rows now ts (rows, seq + 1, n) =
       Inr (rows @ map (\<lambda>(i, t). new_team_row now i t)
                   (filter (\<lambda>(i, t). fst (snd t) \<notin> set (map tm_team_abbr rows))
                      (zip [seq + 1..<seq + 1 + length ts] ts)),
            seq + 1 + length ts,
            n + length (filter (\<lambda>t. fst (snd t) \<notin> set (map tm_team_abbr rows)) ts))"
      using Cons.prems by (intro Cons.IH) (auto simp: less_Suc_eq)
    with 1 True show ?thesis
      by (simp add: t u del: upt_Suc)
  next
    case False
    let ?rows1 = "rows @ [new_team_row now seq t]"
    from False Cons.prems have 1:
      "insert_team now t (rows, seq, n) = Inr (?rows1, seq + 1, n + 1)"
      by (auto simp: insert_team_def new_team_row_def t)
    have 2: "insert_team_rows now ts (?rows1, seq + 1, n + 1) =
       Inr (?rows1 @ map (\<lambda>(i, t). new_team_row now i t)
                   (filter (\<lambda>(i, t). fst (snd t) \<notin> set (map tm_team_abbr ?rows1))
                      (zip [seq + 1..<seq + 1 + length ts] ts)),
            seq + 1 + length ts,
            n + 1 + length (filter (\<lambda>t. fst (snd t) \<notin> set (map tm_team_abbr ?rows1)) ts))"
      using Cons.prems by (intro Cons.IH) (auto simp: new_team_row_def t less_Suc_eq)
    have nb: "\<forall>x\<in>set ts. fst (snd x) \<noteq> b"
      using Cons.prems(1) by (auto simp: t)
    have f1: "filter (\<lambda>t. fst (snd t) \<notin> set (map tm_team_abbr ?rows1)) ts =
              filter (\<lambda>t. fst (snd t) \<notin> set (map tm_team_abbr rows)) ts"
      using nb by (intro filter_cong) (auto simp: new_team_row_def t)
    have f2: "filter (\<lambda>(i, t). fst (snd t) \<notin> set (map tm_team_abbr ?rows1))
                (zip [seq + 1..<seq + 1 + length ts] ts) =
              filter (\<lambda>(i, t). fst (snd t) \<notin> set (map tm_team_abbr rows))
                (zip [seq + 1..<seq + 1 + length ts] ts)"
      using nb by (intro filter_cong) (auto simp: new_team_row_def t dest: set_zip_rightD)
    from 1 2 False show ?thesis
      unfolding f1 f2 by (simp add: t u del: upt_Suc)
  qed
qed

lemma populate_teams_general:
  assumes "w_env W = Some url" "url \<noteq> []" "w_connect W (length (trace s)) url = None"
    and "table_error (store s) ''nfl_teams'' nfl_teams_ddl = None"
    and "\<forall>r\<in>set (nfl_teams (store s)). tm_id r < nfl_teams_id_seq (store s)"
  shows "populate_teams W s =
     (Returned (),
      \<lparr>store = (store s)\<lparr>nfl_teams :=
                  nfl_teams (store s) @
                  map (\<lambda>(i, t). new_team_row (w_now W (Suc (length (trace s)))) i t)
                    (filter (\<lambda>(i, team_name, team_abbr, conference, division).
                               team_abbr \<notin> set (map tm_team_abbr (nfl_teams (store s))))
                       (zip [nfl_teams_id_seq (store s)..<nfl_teams_id_seq (store s) + 32]
                            teams)),
                nfl_teams_id_seq := nfl_teams_id_seq (store s) + 32\<rparr>,
       trace = trace s @
         [DbConnect url,
          Printed (''Inserted '' @
            str_nat (length (filter (\<lambda>(team_name, team_abbr, conference, division).
                       team_abbr \<notin> set (map tm_team_abbr (nfl_teams (store s)))) teams))
            @ '' teams'')]\<rparr>)"
proof -
  have "insert_team_rows (w_now W (Suc (length (trace s)))) teams
          (nfl_teams (store s), nfl_teams_id_seq (store s), 0) =
     Inr (nfl_teams (store s) @
          map (\<lambda>(i, t). new_team_row (w_now W (Suc (length (trace s)))) i t)
             (filter (\<lambda>(i, t). fst (snd t) \<notin> set (map tm_team_abbr (nfl_teams (store s))))
                (zip [nfl_teams_id_seq (store s)..<nfl_teams_id_seq (store s) + length teams]
                     teams)),
          nfl_teams_id_seq (store s) + length teams,
          0 + length (filter (\<lambda>t. fst (snd t) \<notin> set (map tm_team_abbr (nfl_teams (store s))))
                 teams))"
    using assms(5) by (intro insert_team_rows_general teams_distinct)
  moreover have
    "(\<lambda>(i :: nat, team_name :: string, team_abbr :: string, conference :: string,
        division :: string). team_abbr \<notin> A) = (\<lambda>(i, t). fst (snd t) \<notin> A)"
    "(\<lambda>(team_name :: string, team_abbr :: string, conference :: string,
        division :: string). team_abbr \<notin> A) = (\<lambda>t. fst (snd t) \<notin> A)" for A
    by (auto simp: fun_eq_iff)
  ultimately show ?thesis
    using assms(1-4)
    by (simp add: populate_teams_def get_db_connection_ok execute_values_def paginate_teams
        insert_teams_statement_def teams_length print_def str_int_def)
qed

text \<open>
  Claim C5. The embedded list has exactly 32 teams, with 32 different abbreviations. With
  a server that accepts connections and an empty \<^verbatim>\<open>nfl_teams\<close> table of the script's shape,
  a first run of populate\_teams returns, leaves 32 rows and prints \<^verbatim>\<open>Inserted 32 teams\<close>;
  a second run returns too, leaves the same 32 rows and prints \<^verbatim>\<open>Inserted 0 teams\<close>. And
  after any run that returned, whatever the table held before, a further run (with the
  connection granted) returns, leaves the rows as they are and prints \<^verbatim>\<open>Inserted 0 teams\<close>.
  The conflict key is the abbreviation: a proposed row whose abbreviation is in the table
  is skipped, whatever its other values, and one whose abbreviation is not in the table is
  inserted (its id being free), whatever its name. So on a table that holds some rows
  already (ids below the sequence), a run keeps them as they are, adds behind them the
  teams of the list whose abbreviation the table did not hold, and prints their number.
\<close>

theorem seeding_twice:
  "length teams = 32 \<and>
   distinct (map (\<lambda>(team_name, team_abbr, conference, division). team_abbr) teams) \<and>
   (w_env W = Some url \<and> url \<noteq> [] \<and> (\<forall>t. w_connect W t url = None) \<and>
    table_error (store s) ''nfl_teams'' nfl_teams_ddl = None \<and> nfl_teams (store s) = [] \<longrightarrow>
      (\<exists>s1 s2.
         populate_teams W s = (Returned (), s1) \<and>
         populate_teams W s1 = (Returned (), s2) \<and>
         length (nfl_teams (store s1)) = 32 \<and>
         nfl_teams (store s2) = nfl_teams (store s1) \<and>
         last (trace s1) = Printed ''Inserted 32 teams'' \<and>
         last (trace s2) = Printed ''Inserted 0 teams'')) \<and>
   (w_env W = Some url \<and> url \<noteq> [] \<and> w_connect W (length (trace s1)) url = None \<and>
    populate_teams W s = (Returned (), s1) \<longrightarrow>
      (\<exists>s2.
         populate_teams W s1 = (Returned (), s2) \<and>
         nfl_teams (store s2) = nfl_teams (store s1) \<and>
         last (trace s2) = Printed ''Inserted 0 teams'')) \<and>
   (team_abbr \<in> set (map tm_team_abbr rows) \<longrightarrow>
      insert_team now (team_name, team_abbr, conference, division) (rows, seq, n) =
        Inr (rows, seq + 1, n)) \<and>
   (team_abbr \<notin> set (map tm_team_abbr rows) \<and> seq \<notin> set (map tm_id rows) \<longrightarrow>
      insert_team now (team_name, team_abbr, conference, division) (rows, seq, n) =
        Inr (rows @ [\<lparr>tm_id = seq, tm_team_name = team_name, tm_team_abbr = team_abbr,
                       tm_conference = Some conference, tm_division = Some division,
                       tm_created_at = now\<rparr>], seq + 1, n + 1)) \<and>
   (w_env W = Some url \<and> url \<noteq> [] \<and> w_connect W (length (trace s0)) url = None \<and>
    table_error (store s0) ''nfl_teams'' nfl_teams_ddl = None \<and>
    (\<forall>r\<in>set (nfl_teams (store s0)). tm_id r < nfl_teams_id_seq (store s0)) \<longrightarrow>
      populate_teams W s0 =
        (Returned (),
         \<lparr>store = (store s0)\<lparr>nfl_teams :=
              nfl_teams (store s0) @
              map (\<lambda>(i, t). new_team_row (w_now W (Suc (length (trace s0)))) i t)
                (filter (\<lambda>(i, team_name, team_abbr, conference, division).
                           team_abbr \<notin> set (map tm_team_abbr (nfl_teams (store s0))))
                   (zip [nfl_teams_id_seq (store s0)..<nfl_teams_id_seq (store s0) + 32]
                        teams)),
              nfl_teams_id_seq := nfl_teams_id_seq (store s0) + 32\<rparr>,
          trace = trace s0 @
            [DbConnect url,
             Printed (''Inserted '' @
               str_nat (length (filter (\<lambda>(team_name, team_abbr, conference, division).
                          team_abbr \<notin> set (map tm_team_abbr (nfl_teams (store s0)))) teams))
               @ '' teams'')]\<rparr>))"
proof (intro conjI impI)
  show "length teams = 32"
    by (rule teams_length)
  have "(\<lambda>(team_name, team_abbr, conference, division). team_abbr) =
        (\<lambda>t::string \<times> string \<times> string \<times> string. fst (snd t))"
    by auto
  then show "distinct (map (\<lambda>(team_name, team_abbr, conference, division). team_abbr) teams)"
    using teams_distinct by simp
next
  assume a: "w_env W = Some url \<and> url \<noteq> [] \<and> w_connect W (length (trace s1)) url = None \<and>
    populate_teams W s = (Returned (), s1)"
  then have "populate_teams W s = (Returned (), s1)"
    by simp
  from populate_teams_returned[OF this] a
  have "populate_teams W s1 =
     (Returned (),
      \<lparr>store = (store s1)\<lparr>nfl_teams_id_seq := nfl_teams_id_seq (store s1) + 32\<rparr>,
       trace = trace s1 @ [DbConnect url, Printed ''Inserted 0 teams'']\<rparr>)"
    by (intro populate_teams_present) simp_all
  then show "\<exists>s2. populate_teams W s1 = (Returned (), s2) \<and>
         nfl_teams (store s2) = nfl_teams (store s1) \<and>
         last (trace s2) = Printed ''Inserted 0 teams''"
    by simp
next
  assume a: "w_env W = Some url \<and> url \<noteq> [] \<and> (\<forall>t. w_connect W t url = None) \<and>
    table_error (store s) ''nfl_teams'' nfl_teams_ddl = None \<and> nfl_teams (store s) = []"
  let ?s1 = "\<lparr>store = (store s)\<lparr>nfl_teams :=
                  map (\<lambda>(i, t). new_team_row (w_now W (Suc (length (trace s)))) i t)
                    (zip [nfl_teams_id_seq (store s)..<nfl_teams_id_seq (store s) + 32] teams),
                nfl_teams_id_seq := nfl_teams_id_seq (store s) + 32\<rparr>,
       trace = trace s @ [DbConnect url, Printed ''Inserted 32 teams'']\<rparr>"
  from a have 1: "populate_teams W s = (Returned (), ?s1)"
    by (intro populate_teams_fresh) simp_all
  from populate_teams_returned[OF 1] a
  have 2: "populate_teams W ?s1 =
     (Returned (),
      \<lparr>store = (store ?s1)\<lparr>nfl_teams_id_seq := nfl_teams_id_seq (store ?s1) + 32\<rparr>,
       trace = trace ?s1 @ [DbConnect url, Printed ''Inserted 0 teams'']\<rparr>)"
    by (intro populate_teams_present) simp_all
  have 3: "length (nfl_teams (store ?s1)) = 32"
    by (simp add: teams_length)
  show "\<exists>s1 s2.
         populate_teams W s = (Returned (), s1) \<and>
         populate_teams W s1 = (Returned (), s2) \<and>
         length (nfl_teams (store s1)) = 32 \<and>
         nfl_teams (store s2) = nfl_teams (store s1) \<and>
         last (trace s1) = Printed ''Inserted 32 teams'' \<and>
         last (trace s2) = Printed ''Inserted 0 teams''"
    by (rule exI[of _ ?s1], rule exI, intro conjI, rule 1, rule 2, rule 3) simp_all
next
  assume "team_abbr \<in> set (map tm_team_abbr rows)"
  then show "insert_team now (team_name, team_abbr, conference, division) (rows, seq, n) =
        Inr (rows, seq + 1, n)"
    by (simp add: insert_team_def)
next
  assume "team_abbr \<notin> set (map tm_team_abbr rows) \<and> seq \<notin> set (map tm_id rows)"
  then show "insert_team now (team_name, team_abbr, conference, division) (rows, seq, n) =
        Inr (rows @ [\<lparr>tm_id = seq, tm_team_name = team_name, tm_team_abbr = team_abbr,
                       tm_conference = Some conference, tm_division = Some division,
                       tm_created_at = now\<rparr>], seq + 1, n + 1)"
    by (simp add: insert_team_def)
next
  assume "w_env W = Some url \<and> url \<noteq> [] \<and> w_connect W (length (trace s0)) url = None \<and>
    table_error (store s0) ''nfl_teams'' nfl_teams_ddl = None \<and>
    (\<forall>r\<in>set (nfl_teams (store s0)). tm_id r < nfl_teams_id_seq (store s0))"
  then show "populate_teams W s0 =
        (Returned (),
         \<lparr>store = (store s0)\<lparr>nfl_teams :=
              nfl_teams (store s0) @
              map (\<lambda>(i, t). new_team_row (w_now W (Suc (length (trace s0)))) i t)
                (filter (\<lambda>(i, team_name, team_abbr, conference, division).
                           team_abbr \<notin> set (map tm_team_abbr (nfl_teams (store s0))))
                   (zip [nfl_teams_id_seq (store s0)..<nfl_teams_id_seq (store s0) + 32]
                        teams)),
              nfl_teams_id_seq := nfl_teams_id_seq (store s0) + 32\<rparr>,
          trace = trace s0 @
            [DbConnect url,
             Printed (''Inserted '' @
               str_nat (length (filter (\<lambda>(team_name, team_abbr, conference, division).
                          team_abbr \<notin> set (map tm_team_abbr (nfl_teams (store s0)))) teams))
               @ '' teams'')]\<rparr>)"
    by (intro populate_teams_general) simp_all
qed

theorem seeding_twice_witness:
  "w_env test_world = Some ''postgresql://localhost/nfl'' \<and>
   (\<forall>t. w_connect test_world t ''postgresql://localhost/nfl'' = None) \<and>
   table_error ready_db ''nfl_teams'' nfl_teams_ddl = None \<and>
   nfl_teams ready_db = [] \<and>
   fst (populate_teams test_world \<lparr>store = ready_db, trace = []\<rparr>) = Returned () \<and>
   length (nfl_teams (store (snd (populate_teams test_world
      \<lparr>store = ready_db, trace = []\<rparr>)))) = 32 \<and>
   fst (populate_teams test_world
      (snd (populate_teams test_world \<lparr>store = ready_db, trace = []\<rparr>))) = Returned () \<and>
   length (nfl_teams (store (snd (populate_teams test_world
      (snd (populate_teams test_world \<lparr>store = ready_db, trace = []\<rparr>)))))) = 32 \<and>
   last (trace (snd (populate_teams test_world
      (snd (populate_teams test_world \<lparr>store = ready_db, trace = []\<rparr>))))) =
     Printed ''Inserted 0 teams'' \<and>
   ''BUF'' \<in> set (map tm_team_abbr (nfl_teams partial_db)) \<and>
   insert_team 1 (''Buffalo Bills'', ''BUF'', ''AFC'', ''East'') (nfl_teams partial_db, 3, 0) =
     Inr (nfl_teams partial_db, 4, 0) \<and>
   ''CHI'' \<notin> set (map tm_team_abbr (nfl_teams partial_db)) \<and>
   3 \<notin> set (map tm_id (nfl_teams partial_db)) \<and>
   insert_team 1 (''Chicago Bears'', ''CHI'', ''NFC'', ''North'') (nfl_teams partial_db, 3, 0) =
     Inr (nfl_teams partial_db @
          [\<lparr>tm_id = 3, tm_team_name = ''Chicago Bears'', tm_team_abbr = ''CHI'',
            tm_conference = Some ''NFC'', tm_division = Some ''North'', tm_created_at = 1\<rparr>],
          4, 1) \<and>
   table_error partial_db ''nfl_teams'' nfl_teams_ddl = None \<and>
   tm_id (nfl_teams partial_db ! 0) < nfl_teams_id_seq partial_db \<and>
   tm_id (nfl_teams partial_db ! 1) < nfl_teams_id_seq partial_db \<and>
   populate_teams test_world \<lparr>store = partial_db, trace = []\<rparr> =
     (Returned (),
      \<lparr>store = partial_db\<lparr>nfl_teams :=
           nfl_teams partial_db @
           map (\<lambda>(i, t). new_team_row 1 i t)
             (filter (\<lambda>(i, team_name, team_abbr, conference, division).
                        team_abbr \<noteq> ''BUF'' \<and> team_abbr \<noteq> ''CHB'')
                (zip [3..<35] teams)),
           nfl_teams_id_seq := 35\<rparr>,
       trace = [DbConnect ''postgresql://localhost/nfl'', Printed ''Inserted 31 teams'']\<rparr>) \<and>
   length (nfl_teams (store (snd (populate_teams test_world
      \<lparr>store = partial_db, trace = []\<rparr>)))) = 33 \<and>
   map tm_team_name (filter (\<lambda>r. tm_team_abbr r = ''BUF'')
      (nfl_teams (store (snd (populate_teams test_world
         \<lparr>store = partial_db, trace = []\<rparr>))))) = [''Buffalo'']"
proof -
  let ?u = "''postgresql://localhost/nfl''"
  let ?s = "\<lparr>store = ready_db, trace = []\<rparr>"
  let ?p = "\<lparr>store = partial_db, trace = []\<rparr>"
  note inst = seeding_twice
    [where W = test_world and url = ?u and s = ?s
       and ?s1.0 = "snd (populate_teams test_world ?s)" and ?s0.0 = ?p
       and rows = "nfl_teams partial_db" and seq = 3 and n = 0 and now = 1]
  have h: "w_env test_world = Some ?u \<and> ?u \<noteq> [] \<and> (\<forall>t. w_connect test_world t ?u = None) \<and>
    table_error (store ?s) ''nfl_teams'' nfl_teams_ddl = None \<and> nfl_teams (store ?s) = []"
    by (simp add: test_world_def ready_db_def table_error_def)
  with inst[where team_abbr = "''BUF''"]
  obtain s1 s2 where
    1: "populate_teams test_world ?s = (Returned (), s1)" and
    2: "populate_teams test_world s1 = (Returned (), s2)" and
    3: "length (nfl_teams (store s1)) = 32" "nfl_teams (store s2) = nfl_teams (store s1)"
       "last (trace s2) = Printed ''Inserted 0 teams''"
    by blast
  have buf: "''BUF'' \<in> set (map tm_team_abbr (nfl_teams partial_db))"
    and chi: "''CHI'' \<notin> set (map tm_team_abbr (nfl_teams partial_db))"
        "3 \<notin> set (map tm_id (nfl_teams partial_db))"
    and te: "table_error partial_db ''nfl_teams'' nfl_teams_ddl = None"
    and ids: "tm_id (nfl_teams partial_db ! 0) < nfl_teams_id_seq partial_db"
        "tm_id (nfl_teams partial_db ! 1) < nfl_teams_id_seq partial_db"
    by (simp_all add: partial_db_def ready_db_def table_error_def)
  from buf inst[where team_abbr = "''BUF''" and team_name = "''Buffalo Bills''"
      and conference = "''AFC''" and division = "''East''"]
  have skip: "insert_team 1 (''Buffalo Bills'', ''BUF'', ''AFC'', ''East'')
      (nfl_teams partial_db, 3, 0) = Inr (nfl_teams partial_db, 4, 0)"
    by simp
  from chi inst[where team_abbr = "''CHI''" and team_name = "''Chicago Bears''"
      and conference = "''NFC''" and division = "''North''"]
  have ins: "insert_team 1 (''Chicago Bears'', ''CHI'', ''NFC'', ''North'')
      (nfl_teams partial_db, 3, 0) =
     Inr (nfl_teams partial_db @
          [\<lparr>tm_id = 3, tm_team_name = ''Chicago Bears'', tm_team_abbr = ''CHI'',
            tm_conference = Some ''NFC'', tm_division = Some ''North'', tm_created_at = 1\<rparr>],
          4, 1)"
    by simp
  have c: "length (filter (\<lambda>(team_name, team_abbr, conference, division).
             team_abbr \<notin> set (map tm_team_abbr (nfl_teams partial_db))) teams) = 31"
    by (simp add: partial_db_def teams_def)
  have d: "str_nat 31 = ''31''"
    by (simp add: str_nat.simps)
  from c d inst[where team_abbr = "''BUF''"]
  have run: "populate_teams test_world ?p =
     (Returned (),
      \<lparr>store = partial_db\<lparr>nfl_teams :=
           nfl_teams partial_db @
           map (\<lambda>(i, t). new_team_row 1 i t)
             (filter (\<lambda>(i, team_name, team_abbr, conference, division).
                        team_abbr \<noteq> ''BUF'' \<and> team_abbr \<noteq> ''CHB'')
                (zip [3..<35] teams)),
           nfl_teams_id_seq := 35\<rparr>,
       trace = [DbConnect ?u, Printed ''Inserted 31 teams'']\<rparr>)"
    by (simp add: test_world_def table_error_def partial_db_def ready_db_def)
  have len: "length (nfl_teams (store (snd (populate_teams test_world ?p)))) = 33"
    unfolding run by (simp add: partial_db_def teams_def)
  have one: "map tm_team_name (filter (\<lambda>r. tm_team_abbr r = ''BUF'')
      (nfl_teams (store (snd (populate_teams test_world ?p))))) = [''Buffalo'']"
    unfolding run by (simp add: partial_db_def teams_def new_team_row_def)
  from h 1 2 3 buf chi te ids skip ins run len one show ?thesis
    by simp
qed

section \<open>The driver (C8)\<close>

lemma http_gets_append [simp]: "http_gets (xs @ ys) = http_gets xs @ http_gets ys"
  by (induction xs rule: http_gets.induct) simp_all

lemma populate_games_trace:
  "\<exists>es. trace (snd (populate_games W season week s)) =
          trace s @ HttpGet (games_url season week) # es \<and> http_gets es = []"
  by (auto simp: populate_games_def populate_games_try_def Let_def print_def
        get_db_connection_def
      split: sum.splits prod.splits outcome.splits option.splits if_splits)

lemma weeks_loop_trace:
  "\<exists>ess. length ess = length wks \<and> (\<forall>es\<in>set ess. http_gets es = []) \<and>
     fst (weeks_loop W wks s) = Returned () \<and>
     trace (snd (weeks_loop W wks s)) =
       trace s @ concat (map (\<lambda>(wk, es).
           Printed (''   Fetching week '' @ str_int wk @ ''...'') #
            HttpGet (games_url 2025 (Some wk)) # es) (zip wks ess))"
proof (induction wks arbitrary: s)
  case Nil
  then show ?case by simp
next
  case (Cons wk wks)
  let ?p = "print (''   Fetching week '' @ str_int wk @ ''...'') s"
  let ?s1 = "snd (populate_games W 2025 (Some wk) ?p)"
  have step: "weeks_loop W (wk # wks) s = weeks_loop W wks ?s1"
    by (rule weeks_loop_step)
  from populate_games_trace[of W 2025 "Some wk" ?p] obtain es where
    es: "trace ?s1 = trace ?p @ HttpGet (games_url 2025 (Some wk)) # es" "http_gets es = []"
    by blast
  from Cons.IH[of ?s1] obtain ess where
    ess: "length ess = length wks" "\<forall>es\<in>set ess. http_gets es = []"
      "fst (weeks_loop W wks ?s1) = Returned ()"
      "trace (snd (weeks_loop W wks ?s1)) =
         trace ?s1 @ concat (map (\<lambda>(wk, es).
           Printed (''   Fetching week '' @ str_int wk @ ''...'') #
            HttpGet (games_url 2025 (Some wk)) # es) (zip wks ess))"
    by blast
  show ?case
    by (rule exI[of _ "es # ess"]) (use es ess step in \<open>simp add: print_def\<close>)
qed

lemma http_gets_weeks:
  "length ess = length wks \<Longrightarrow> \<forall>es\<in>set ess. http_gets es = [] \<Longrightarrow>
   http_gets (concat (map (\<lambda>(wk, es).
           Printed (''   Fetching week '' @ str_int wk @ ''...'') #
            HttpGet (games_url 2025 (Some wk)) # es) (zip wks ess))) =
     map (\<lambda>wk. games_url 2025 (Some wk)) wks"
  by (induction wks ess rule: list_induct2') simp_all

lemma create_tables_trace:
  "\<exists>es. trace (snd (create_tables W s)) = trace s @ es \<and> http_gets es = []"
  by (auto simp: create_tables_def get_db_connection_def print_def
      split: option.splits sum.splits)

lemma populate_teams_trace:
  "\<exists>es. trace (snd (populate_teams W s)) = trace s @ es \<and> http_gets es = []"
  by (auto simp: populate_teams_def get_db_connection_def print_def
      split: option.splits sum.splits prod.splits)

lemma weeks_11: "[1..current_week] = [1, 2, 3, 4, 5, 6, 7, 8, 9, 10, 11]"
  unfolding current_week_def by code_simp

lemma weeks_loop_foldl:
  "weeks_loop W wks s =
     (Returned (),
      foldl (\<lambda>st wk. snd (populate_games W 2025 (Some wk)
                              (print (''   Fetching week '' @ str_int wk @ ''...'') st)))
        s wks)"
proof (induction wks arbitrary: s)
  case Nil
  then show ?case by simp
next
  case (Cons wk wks)
  show ?case
    unfolding weeks_loop_step[of W wk wks s] Cons.IH by simp
qed

lemma synthetic_parsed_week:
  "wk \<noteq> 0 \<Longrightarrow> parse_events W season (Some wk) synthetic =
     Inr [\<lparr>t_game_id = JStr ''401'', t_season = season, t_week = JInt wk,
           t_game_date = ''2025-09-07'', t_home_team = JStr ''AAA'', t_away_team = JStr ''BBB'',
           t_home_score = Some 10, t_away_score = Some 7, t_status = JStr ''final''\<rparr>,
          \<lparr>t_game_id = JStr ''402'', t_season = season, t_week = JInt wk,
           t_game_date = ''2025-09-08'', t_home_team = JStr ''CCC'', t_away_team = JStr ''DDD'',
           t_home_score = Some 0, t_away_score = Some 0, t_status = JStr ''scheduled''\<rparr>]"
  by (simp add: parse_events_def synthetic_def parse_event_def competitor_def
      competitor_step_def home_away_def team_abbreviation_def score_def status_name_def
      week_value_def)

lemma test_world_fields:
  "w_env test_world = Some ''postgresql://localhost/nfl''"
  "w_connect test_world t url = None"
  "w_http test_world t url = Inr \<lparr>status_code = 200, json_result = Inr synthetic\<rparr>"
  "w_now test_world t = t"
  "w_adapt test_world = test_adapt"
  by (simp_all add: test_world_def)

lemma test_world_week:
  assumes "wk \<noteq> 0" "table_error (store st) ''nfl_games'' nfl_games_ddl = None"
    and "nfl_games (store st) = [] \<or>
         map g_game_id (nfl_games (store st)) = [Some ''401'', Some ''402'']"
  shows "table_error (store (snd (populate_games test_world 2025 (Some wk) st)))
           ''nfl_games'' nfl_games_ddl = None \<and>
         map g_game_id (nfl_games (store (snd (populate_games test_world 2025 (Some wk) st)))) =
           [Some ''401'', Some ''402''] \<and>
         nfl_teams (store (snd (populate_games test_world 2025 (Some wk) st))) =
           nfl_teams (store st)"
  using assms(3)
proof
  assume "nfl_games (store st) = []"
  with assms(1,2) show ?thesis
    by (simp add: populate_games_def populate_games_try_def synthetic_parsed_week Let_def
        test_world_fields get_db_connection_def execute_values_def paginate.simps
        upsert_games_statement_def test_adapt_def upsert_game_def new_game_row_def print_def
        table_error_def)
next
  assume "map g_game_id (nfl_games (store st)) = [Some ''401'', Some ''402'']"
  then obtain a b where ab: "nfl_games (store st) = [a, b]" "g_game_id a = Some ''401''"
    "g_game_id b = Some ''402''"
    by (auto simp: map_eq_Cons_conv)
  with assms(1,2) show ?thesis
    by (simp add: populate_games_def populate_games_try_def synthetic_parsed_week Let_def
        test_world_fields get_db_connection_def execute_values_def paginate.simps
        upsert_games_statement_def test_adapt_def upsert_game_def do_update_def print_def
        table_error_def)
qed

lemma store_print: "store (print l s) = store s"
  by (simp add: print_def)

lemma test_world_weeks:
  assumes "\<forall>wk\<in>set wks. wk \<noteq> 0"
    and "table_error (store st) ''nfl_games'' nfl_games_ddl = None"
    and "map g_game_id (nfl_games (store st)) = [Some ''401'', Some ''402'']"
  shows "map g_game_id (nfl_games (store
           (foldl (\<lambda>st wk. snd (populate_games test_world 2025 (Some wk)
                      (print (''   Fetching week '' @ str_int wk @ ''...'') st))) st wks))) =
           [Some ''401'', Some ''402''] \<and>
         nfl_teams (store
           (foldl (\<lambda>st wk. snd (populate_games test_world 2025 (Some wk)
                      (print (''   Fetching week '' @ str_int wk @ ''...'') st))) st wks)) =
           nfl_teams (store st)"
  using assms
proof (induction wks arbitrary: st)
  case Nil
  then show ?case by simp
next
  case (Cons wk wks)
  let ?p = "print (''   Fetching week '' @ str_int wk @ ''...'') st"
  let ?st1 = "snd (populate_games test_world 2025 (Some wk) ?p)"
  from Cons.prems have "wk \<noteq> 0"
    "table_error (store ?p) ''nfl_games'' nfl_games_ddl = None"
    "nfl_games (store ?p) = [] \<or>
     map g_game_id (nfl_games (store ?p)) = [Some ''401'', Some ''402'']"
    by (simp_all add: print_def)
  from test_world_week[OF this]
  have 1: "table_error (store ?st1) ''nfl_games'' nfl_games_ddl = None"
    "map g_game_id (nfl_games (store ?st1)) = [Some ''401'', Some ''402'']"
    "nfl_teams (store ?st1) = nfl_teams (store st)"
    by (simp_all add: print_def)
  from Cons.prems have "\<forall>wk\<in>set wks. wk \<noteq> 0"
    by simp
  from Cons.IH[OF this 1(1,2)] 1(3) show ?case
    by simp
qed

text \<open>
  Claim C8. main prints its first two lines and runs create\_tables; if that raises, main
  ends with the exception there. Otherwise it runs populate\_teams on the state
  create\_tables left; if that raises, main ends there. Otherwise main returns, and the
  state it leaves is the one populate\_teams left, taken through the line announcing the
  games, then for each week 1, 2, ..., 11 in this order through the line
  \<^verbatim>\<open>Fetching week\<close> and one call of populate\_games for season 2025 and that week, each call
  starting from the state the one before left, and through the closing line. In the trace
  each week shows as its line, one request for that week, and whatever else populate\_games
  did for it (which holds no further request); so the requests of the run are exactly
  those of the eleven weeks, once each, in ascending order.
\<close>

theorem main_runs_in_order:
  "(create_tables W
      (print (CHR 0x0A # ''1. Creating tables...'')
         (print ''Starting NFL data population...'' s)) = (Raised e, s1) \<longrightarrow>
      main W s = (Raised e, s1)) \<and>
   (create_tables W
      (print (CHR 0x0A # ''1. Creating tables...'')
         (print ''Starting NFL data population...'' s)) = (Returned (), s1) \<and>
    populate_teams W (print (CHR 0x0A # ''2. Populating teams...'') s1) = (Raised e, s2) \<longrightarrow>
      main W s = (Raised e, s2)) \<and>
   (create_tables W
      (print (CHR 0x0A # ''1. Creating tables...'')
         (print ''Starting NFL data population...'' s)) = (Returned (), s1) \<and>
    populate_teams W (print (CHR 0x0A # ''2. Populating teams...'') s1) = (Returned (), s2) \<longrightarrow>
      (\<exists>s3 ess.
         main W s = (Returned (), s3) \<and>
         s3 =
           print (CHR 0x0A # ''NFL data population completed!'')
             (foldl (\<lambda>st wk. snd (populate_games W 2025 (Some wk)
                        (print (''   Fetching week '' @ str_int wk @ ''...'') st)))
                (print (CHR 0x0A # ''3. Populating games for 2025 season...'') s2)
                [1, 2, 3, 4, 5, 6, 7, 8, 9, 10, 11]) \<and>
         length ess = 11 \<and> (\<forall>es\<in>set ess. http_gets es = []) \<and>
         trace s3 =
           trace s2 @ [Printed (CHR 0x0A # ''3. Populating games for 2025 season...'')] @
           concat (map (\<lambda>(wk, es).
               Printed (''   Fetching week '' @ str_int wk @ ''...'') #
                HttpGet (games_url 2025 (Some wk)) # es)
             (zip [1, 2, 3, 4, 5, 6, 7, 8, 9, 10, 11] ess)) @
           [Printed (CHR 0x0A # ''NFL data population completed!'')] \<and>
         http_gets (trace s3) =
           http_gets (trace s) @
           map (\<lambda>wk. games_url 2025 (Some wk)) [1, 2, 3, 4, 5, 6, 7, 8, 9, 10, 11]))"
proof (intro conjI impI)
  assume "create_tables W
      (print (CHR 0x0A # ''1. Creating tables...'')
         (print ''Starting NFL data population...'' s)) = (Raised e, s1)"
  then show "main W s = (Raised e, s1)"
    by (simp add: main_def)
next
  assume "create_tables W
      (print (CHR 0x0A # ''1. Creating tables...'')
         (print ''Starting NFL data population...'' s)) = (Returned (), s1) \<and>
    populate_teams W (print (CHR 0x0A # ''2. Populating teams...'') s1) = (Raised e, s2)"
  then show "main W s = (Raised e, s2)"
    by (simp add: main_def)
next
  let ?s0 = "print (CHR 0x0A # ''1. Creating tables...'')
         (print ''Starting NFL data population...'' s)"
  let ?wks = "[1, 2, 3, 4, 5, 6, 7, 8, 9, 10, 11] :: int list"
  assume a: "create_tables W ?s0 = (Returned (), s1) \<and>
    populate_teams W (print (CHR 0x0A # ''2. Populating teams...'') s1) = (Returned (), s2)"
  let ?p3 = "print (CHR 0x0A # ''3. Populating games for 2025 season...'') s2"
  from weeks_loop_trace[of ?wks W ?p3] obtain ess where
    ess: "length ess = length ?wks" "\<forall>es\<in>set ess. http_gets es = []"
      "fst (weeks_loop W ?wks ?p3) = Returned ()"
      "trace (snd (weeks_loop W ?wks ?p3)) =
         trace ?p3 @ concat (map (\<lambda>(wk, es).
           Printed (''   Fetching week '' @ str_int wk @ ''...'') #
            HttpGet (games_url 2025 (Some wk)) # es) (zip ?wks ess))"
    by blast
  obtain sw where wl: "weeks_loop W ?wks ?p3 = (Returned (), sw)"
    using ess(3) by (cases "weeks_loop W ?wks ?p3") (simp del: weeks_loop.simps)
  have fo: "sw =
      foldl (\<lambda>st wk. snd (populate_games W 2025 (Some wk)
                 (print (''   Fetching week '' @ str_int wk @ ''...'') st))) ?p3 ?wks"
    using wl unfolding weeks_loop_foldl by simp
  let ?s3 = "print (CHR 0x0A # ''NFL data population completed!'') sw"
  have m: "main W s = (Returned (), ?s3)"
    using a wl by (simp add: main_def weeks_11 del: weeks_loop.simps)
  have tr: "trace ?s3 =
           trace s2 @ [Printed (CHR 0x0A # ''3. Populating games for 2025 season...'')] @
           concat (map (\<lambda>(wk, es).
               Printed (''   Fetching week '' @ str_int wk @ ''...'') #
                HttpGet (games_url 2025 (Some wk)) # es) (zip ?wks ess)) @
           [Printed (CHR 0x0A # ''NFL data population completed!'')]"
    using ess(4) wl by (simp add: print_def del: weeks_loop.simps)
  from create_tables_trace[of W ?s0] a obtain es1 where
    es1: "trace s1 = trace ?s0 @ es1" "http_gets es1 = []"
    by auto
  from populate_teams_trace[of W "print (CHR 0x0A # ''2. Populating teams...'') s1"] a
  obtain es2 where
    es2: "trace s2 = trace (print (CHR 0x0A # ''2. Populating teams...'') s1) @ es2"
      "http_gets es2 = []"
    by auto
  have g2: "http_gets (trace s2) = http_gets (trace s)"
    using es1 es2 by (simp add: print_def)
  have hg: "http_gets (trace ?s3) =
           http_gets (trace s) @ map (\<lambda>wk. games_url 2025 (Some wk)) ?wks"
    unfolding tr using http_gets_weeks[OF ess(1,2)] g2 by (simp del: weeks_loop.simps)
  show "\<exists>s3 ess.
         main W s = (Returned (), s3) \<and>
         s3 =
           print (CHR 0x0A # ''NFL data population completed!'')
             (foldl (\<lambda>st wk. snd (populate_games W 2025 (Some wk)
                        (print (''   Fetching week '' @ str_int wk @ ''...'') st)))
                (print (CHR 0x0A # ''3. Populating games for 2025 season...'') s2)
                [1, 2, 3, 4, 5, 6, 7, 8, 9, 10, 11]) \<and>
         length ess = 11 \<and> (\<forall>es\<in>set ess. http_gets es = []) \<and>
         trace s3 =
           trace s2 @ [Printed (CHR 0x0A # ''3. Populating games for 2025 season...'')] @
           concat (map (\<lambda>(wk, es).
               Printed (''   Fetching week '' @ str_int wk @ ''...'') #
                HttpGet (games_url 2025 (Some wk)) # es)
             (zip [1, 2, 3, 4, 5, 6, 7, 8, 9, 10, 11] ess)) @
           [Printed (CHR 0x0A # ''NFL data population completed!'')] \<and>
         http_gets (trace s3) =
           http_gets (trace s) @
           map (\<lambda>wk. games_url 2025 (Some wk)) [1, 2, 3, 4, 5, 6, 7, 8, 9, 10, 11]"
    using m ess(1,2) tr hg fo
    by (intro exI[of _ ?s3] exI[of _ ess]) (simp del: weeks_loop.simps foldl.simps)
qed

theorem main_runs_in_order_witness:
  "fst (create_tables test_world
      (print (CHR 0x0A # ''1. Creating tables...'')
         (print ''Starting NFL data population...'' \<lparr>store = empty_db, trace = []\<rparr>)))
     = Returned () \<and>
   fst (populate_teams test_world
      (print (CHR 0x0A # ''2. Populating teams...'')
         (snd (create_tables test_world
            (print (CHR 0x0A # ''1. Creating tables...'')
               (print ''Starting NFL data population...''
                  \<lparr>store = empty_db, trace = []\<rparr>))))))
     = Returned () \<and>
   fst (main test_world \<lparr>store = empty_db, trace = []\<rparr>) = Returned () \<and>
   http_gets (trace (snd (main test_world \<lparr>store = empty_db, trace = []\<rparr>))) =
     map (\<lambda>wk. games_url 2025 (Some wk)) [1, 2, 3, 4, 5, 6, 7, 8, 9, 10, 11] \<and>
   map g_game_id (nfl_games (store (snd (main test_world \<lparr>store = empty_db, trace = []\<rparr>)))) =
     [Some ''401'', Some ''402''] \<and>
   length (nfl_teams (store (snd (main test_world \<lparr>store = empty_db, trace = []\<rparr>)))) = 32"
proof -
  let ?u = "''postgresql://localhost/nfl''"
  let ?b = "\<lparr>store = empty_db, trace = []\<rparr>"
  let ?s0 = "print (CHR 0x0A # ''1. Creating tables...'')
               (print ''Starting NFL data population...'' ?b)"
  let ?s1 = "\<lparr>store = ready_db,
              trace = [Printed ''Starting NFL data population...'',
                       Printed (CHR 0x0A # ''1. Creating tables...''),
                       DbConnect ?u, Printed ''Tables created successfully'']\<rparr>"
  let ?p2 = "print (CHR 0x0A # ''2. Populating teams...'') ?s1"
  let ?step = "\<lambda>st wk. snd (populate_games test_world 2025 (Some wk)
                      (print (''   Fetching week '' @ str_int wk @ ''...'') st))"
  have c: "create_tables test_world ?s0 = (Returned (), ?s1)"
    by (simp add: create_tables_def get_db_connection_def test_world_def print_def
        create_statements_empty_db)
  have "\<exists>s2. populate_teams test_world ?p2 = (Returned (), s2) \<and>
          table_error (store s2) ''nfl_games'' nfl_games_ddl = None \<and>
          nfl_games (store s2) = [] \<and> length (nfl_teams (store s2)) = 32"
    using populate_teams_fresh[of test_world ?u ?p2]
    by (simp add: test_world_def print_def ready_db_def table_error_def teams_length)
  then obtain s2 where p: "populate_teams test_world ?p2 = (Returned (), s2)"
    and s2: "table_error (store s2) ''nfl_games'' nfl_games_ddl = None"
      "nfl_games (store s2) = []" "length (nfl_teams (store s2)) = 32"
    by blast
  let ?p3 = "print (CHR 0x0A # ''3. Populating games for 2025 season...'') s2"
  from main_runs_in_order[of test_world ?b _ ?s1 s2] c p
  obtain s3 where m: "main test_world ?b = (Returned (), s3)"
    and f: "s3 = print (CHR 0x0A # ''NFL data population completed!'')
                  (foldl ?step ?p3 [1, 2, 3, 4, 5, 6, 7, 8, 9, 10, 11])"
    and g: "http_gets (trace s3) =
       http_gets (trace ?b) @
       map (\<lambda>wk. games_url 2025 (Some wk)) [1, 2, 3, 4, 5, 6, 7, 8, 9, 10, 11]"
    by blast
  let ?w1 = "?step ?p3 1"
  have "(1::int) \<noteq> 0" "table_error (store (print (''   Fetching week '' @ str_int 1 @ ''...'') ?p3))
            ''nfl_games'' nfl_games_ddl = None"
    "nfl_games (store (print (''   Fetching week '' @ str_int 1 @ ''...'') ?p3)) = [] \<or>
     map g_game_id (nfl_games (store (print (''   Fetching week '' @ str_int 1 @ ''...'') ?p3)))
       = [Some ''401'', Some ''402'']"
    using s2 by (simp_all add: print_def)
  from test_world_week[OF this]
  have w1: "table_error (store ?w1) ''nfl_games'' nfl_games_ddl = None"
    "map g_game_id (nfl_games (store ?w1)) = [Some ''401'', Some ''402'']"
    "nfl_teams (store ?w1) = nfl_teams (store s2)"
    by (simp_all add: print_def)
  have "\<forall>wk\<in>set [2, 3, 4, 5, 6, 7, 8, 9, 10, 11 :: int]. wk \<noteq> 0"
    by simp
  from test_world_weeks[OF this w1(1,2)] w1(3)
  have "map g_game_id (nfl_games (store (foldl ?step ?w1 [2, 3, 4, 5, 6, 7, 8, 9, 10, 11])))
          = [Some ''401'', Some ''402'']"
    "nfl_teams (store (foldl ?step ?w1 [2, 3, 4, 5, 6, 7, 8, 9, 10, 11])) = nfl_teams (store s2)"
    by simp_all
  moreover have "foldl ?step ?p3 [1, 2, 3, 4, 5, 6, 7, 8, 9, 10, 11] =
      foldl ?step ?w1 [2, 3, 4, 5, 6, 7, 8, 9, 10, 11]"
    by (simp only: foldl_Cons)
  ultimately have fin: "map g_game_id (nfl_games (store s3)) = [Some ''401'', Some ''402'']"
    "length (nfl_teams (store s3)) = 32"
    unfolding f using s2(3) by (simp_all only: store_print)
  have 1: "fst (create_tables test_world ?s0) = Returned ()"
    using c by simp
  have 2: "fst (populate_teams test_world
      (print (CHR 0x0A # ''2. Populating teams...'') (snd (create_tables test_world ?s0))))
     = Returned ()"
    using c p by simp
  have 3: "fst (main test_world ?b) = Returned ()" "snd (main test_world ?b) = s3"
    using m by simp_all
  show ?thesis
    unfolding 3 using 1 2 g fin by (simp del: foldl_Cons)
qed

section \<open>What a conflict overwrites (C1)\<close>

lemma kept_columns_do_update [simp]: "kept_columns (do_update now v r) = kept_columns r"
  by (simp add: kept_columns_def do_update_def)

lemma map_do_update_kept:
  "map kept_columns (map (\<lambda>r. if P r then do_update now v r else r) rows) =
     map kept_columns rows"
  by (induction rows) simp_all

lemma upsert_game_kept:
  assumes "upsert_game now v (rows, seq, touched) = Inr (rows', seq', touched')"
  shows "\<exists>added. map kept_columns rows' = map kept_columns rows @ added"
  using assms
  by (auto simp: upsert_game_def map_do_update_kept simp del: map_map
           split: option.splits if_splits)

lemma upsert_game_rows_kept:
  assumes "upsert_game_rows now vs (rows, seq, touched) = Inr (rows', seq', touched')"
  shows "\<exists>added. map kept_columns rows' = map kept_columns rows @ added"
  using assms
proof (induction vs arbitrary: rows seq touched)
  case Nil
  then show ?case by simp
next
  case (Cons v vs)
  from Cons.prems obtain r1 s1 t1 where
    1: "upsert_game now v (rows, seq, touched) = Inr (r1, s1, t1)" and
    2: "upsert_game_rows now vs (r1, s1, t1) = Inr (rows', seq', touched')"
    by (auto split: sum.splits)
  from upsert_game_kept[OF 1] Cons.IH[OF 2] show ?case
    by auto
qed

lemma upsert_games_statement_kept:
  assumes "upsert_games_statement W now page db = (r, db')"
  shows "\<exists>added. map kept_columns (nfl_games db') = map kept_columns (nfl_games db) @ added"
  using assms
  by (auto simp: upsert_games_statement_def
           split: sum.splits option.splits prod.splits dest: upsert_game_rows_kept)

lemma run_pages_kept:
  assumes "run_pages (upsert_games_statement W now) pages rc db = (r, db')"
  shows "\<exists>added. map kept_columns (nfl_games db') = map kept_columns (nfl_games db) @ added"
  using assms
proof (induction pages arbitrary: rc db)
  case Nil
  then show ?case by simp
next
  case (Cons p ps)
  obtain r1 d1 where 1: "upsert_games_statement W now p db = (r1, d1)"
    by (cases "upsert_games_statement W now p db") auto
  from upsert_games_statement_kept[OF 1] obtain a1 where
    a1: "map kept_columns (nfl_games d1) = map kept_columns (nfl_games db) @ a1"
    by blast
  show ?case
  proof (cases r1)
    case (Inl e)
    with Cons.prems 1 a1 show ?thesis by auto
  next
    case (Inr n)
    with Cons.prems 1 have "run_pages (upsert_games_statement W now) ps (int n) d1 = (r, db')"
      by simp
    from Cons.IH[OF this] a1 show ?thesis by auto
  qed
qed

lemma populate_games_try_kept:
  "\<exists>added. map kept_columns (nfl_games (store (snd (populate_games_try W season week s)))) =
     map kept_columns (nfl_games (store s)) @ added"
proof -
  have g: "\<And>s oc s'. get_db_connection W s = (oc, s') \<Longrightarrow> store s' = store s"
    by (rule get_db_connection_store)
  show ?thesis
    by (auto simp: populate_games_try_def Let_def print_def execute_values_def
          split: sum.splits prod.splits outcome.splits if_splits
          dest!: g run_pages_kept)
qed

lemma populate_games_kept:
  "\<exists>added. map kept_columns (nfl_games (store (snd (populate_games W season week s)))) =
     map kept_columns (nfl_games (store s)) @ added"
  using populate_games_try_kept[of W season week s]
  by (auto simp: populate_games_def print_def split: prod.splits outcome.splits)

text \<open>
  Claim C1. Whatever the endpoint answers, a call of populate\_games leaves every row that
  was in \<^verbatim>\<open>nfl_games\<close> in its place with its id, game\_id, season, week, game\_date,
  home\_team, away\_team and created\_at as they were; rows can only be added behind them.
  And a proposed row whose game\_id is that of a row of the table makes the statement
  overwrite, in that row, home\_score, away\_score and status with the proposed values and
  updated\_at with the time of the statement, and nothing else.
\<close>

theorem conflict_keeps_first_insert:
  "(\<exists>added.
      map kept_columns (nfl_games (store (snd (populate_games W season week s)))) =
        map kept_columns (nfl_games (store s)) @ added) \<and>
   (v_game_id v = Some k \<and> k \<notin> set touched \<and> Some k \<in> set (map g_game_id rows) \<longrightarrow>
      upsert_game now v (rows, seq, touched) =
        Inr (map (\<lambda>r. if g_game_id r = Some k
                        then r\<lparr>g_home_score := v_home_score v,
                               g_away_score := v_away_score v,
                               g_status := v_status v,
                               g_updated_at := now\<rparr>
                        else r) rows,
             seq + 1, k # touched))"
proof (intro conjI impI)
  show "\<exists>added.
      map kept_columns (nfl_games (store (snd (populate_games W season week s)))) =
        map kept_columns (nfl_games (store s)) @ added"
    by (rule populate_games_kept)
next
  assume "v_game_id v = Some k \<and> k \<notin> set touched \<and> Some k \<in> set (map g_game_id rows)"
  then show "upsert_game now v (rows, seq, touched) =
        Inr (map (\<lambda>r. if g_game_id r = Some k
                        then r\<lparr>g_home_score := v_home_score v,
                               g_away_score := v_away_score v,
                               g_status := v_status v,
                               g_updated_at := now\<rparr>
                        else r) rows,
             seq + 1, k # touched)"
    by (simp add: upsert_game_def do_update_def)
qed

lemma later_parsed:
  "parse_events later_world 2025 (Some 2) later_scoreboard =
     Inr [\<lparr>t_game_id = JStr ''402'', t_season = 2025, t_week = JInt 2,
           t_game_date = ''2025-09-09'', t_home_team = JStr ''EEE'', t_away_team = JStr ''FFF'',
           t_home_score = Some 21, t_away_score = Some 14, t_status = JStr ''final''\<rparr>]"
  by (simp add: parse_events_def later_scoreboard_def parse_event_def competitor_def
      competitor_step_def home_away_def team_abbreviation_def score_def status_name_def
      week_value_def later_world_def test_world_def test_int_str_def)

lemma later_world_fields:
  "w_env later_world = Some ''postgresql://localhost/nfl''"
  "w_connect later_world t url = None"
  "w_http later_world t url = Inr \<lparr>status_code = 200, json_result = Inr later_scoreboard\<rparr>"
  "w_now later_world t = t"
  "w_adapt later_world = test_adapt"
  by (simp_all add: later_world_def test_world_def)

lemma later_run:
  "nfl_games (store (snd (populate_games later_world 2025 (Some 2)
       \<lparr>store = played_db, trace = []\<rparr>))) =
     [row_401,
      row_402\<lparr>g_home_score := Some 21, g_away_score := Some 14, g_status := Some ''final'',
              g_updated_at := 2\<rparr>]"
  by (simp add: populate_games_def populate_games_try_def later_parsed Let_def
      later_world_fields get_db_connection_def execute_values_def
      paginate.simps upsert_games_statement_def test_adapt_def table_error_def ready_db_def
      played_db_def upsert_game_def do_update_def print_def row_401_def row_402_def)

theorem conflict_keeps_first_insert_witness:
  "v_game_id later_values = Some ''402'' \<and> ''402'' \<notin> set [] \<and>
   Some ''402'' \<in> set (map g_game_id [row_401, row_402]) \<and>
   upsert_game 2 later_values ([row_401, row_402], 3, []) =
     Inr ([row_401,
           row_402\<lparr>g_home_score := Some 21, g_away_score := Some 14,
                   g_status := Some ''final'', g_updated_at := 2\<rparr>], 4, [''402'']) \<and>
   nfl_games (store (snd (populate_games later_world 2025 (Some 2)
       \<lparr>store = played_db, trace = []\<rparr>))) =
     [row_401,
      row_402\<lparr>g_home_score := Some 21, g_away_score := Some 14, g_status := Some ''final'',
              g_updated_at := 2\<rparr>] \<and>
   map kept_columns (nfl_games (store (snd (populate_games later_world 2025 (Some 2)
       \<lparr>store = played_db, trace = []\<rparr>)))) =
     map kept_columns (nfl_games played_db)"
  using conflict_keeps_first_insert
    [of later_world 2025 "Some 2" "\<lparr>store = played_db, trace = []\<rparr>"
        later_values "''402''" "[]" "[row_401, row_402]" 2 3]
  by (simp add: later_run)
     (simp add: later_values_def row_401_def row_402_def played_db_def kept_columns_def)

end
